theory Spec2Isabelle
  imports Main "HOL-Library.AList" "HOL-Library.Sublist" "HOL-Library.Multiset"
    "HOL-Library.Char_ord" "HOL-Library.List_Lexorder"
begin

section \<open>JavaScript values\<close>

text \<open>
  The build script \<^verbatim>\<open>scripts/build-index.cjs\<close> works on whatever \<^verbatim>\<open>JSON.parse\<close>
  returns, so the values are modelled untyped. A number is kept as the text that
  JavaScript's \<^verbatim>\<open>String(n)\<close> gives for it (\<^verbatim>\<open>1.5\<close> is \<open>JNum ''1.5''\<close>): two JSON
  numbers are equal in JavaScript exactly when these texts are equal (both zeros print as
  \<^verbatim>\<open>0\<close>, and JSON has no NaN). An object is the list of its own properties in
  enumeration order. \<open>JUndef\<close> is \<^verbatim>\<open>undefined\<close>; \<open>JNative f\<close> is the built-in function
  named \<open>f\<close>, which a lookup on a plain object can reach through \<^verbatim>\<open>Object.prototype\<close>.
\<close>

datatype jsval =
    JUndef
  | JNull
  | JBool bool
  | JNum string
  | JStr string
  | JArr "jsval list"
  | JObj "(string \<times> jsval) list"
  | JNative string

type_synonym obj = "(string \<times> jsval) list"

datatype error = TypeError | FileError | MkdirError | WriteError

datatype log_event =
    Warning_metadata
  | Error_processing string
  | Categories_not_found string string
  | Error_building string
  | Unhandled error

text \<open>Truthiness, as \<^verbatim>\<open>if (v)\<close>, \<^verbatim>\<open>v && w\<close> and \<^verbatim>\<open>v || w\<close> test it.\<close>

fun truthy :: "jsval \<Rightarrow> bool" where
  "truthy JUndef = False"
| "truthy JNull = False"
| "truthy (JBool b) = b"
| "truthy (JNum s) = (s \<noteq> ''0'')"
| "truthy (JStr s) = (s \<noteq> [])"
| "truthy (JArr xs) = True"
| "truthy (JObj kvs) = True"
| "truthy (JNative f) = True"

fun nullish :: "jsval \<Rightarrow> bool" where
  "nullish JUndef = True"
| "nullish JNull = True"
| "nullish v = False"

text \<open>Decimal text of a count (what \<^verbatim>\<open>String(n)\<close> gives for a natural number below \<open>10^21\<close>).\<close>

definition digit_char :: "nat \<Rightarrow> char" where
  "digit_char d = char_of (48 + d)"

fun decimal :: "nat \<Rightarrow> string" where
  "decimal n = (if n < 10 then [digit_char n] else decimal (n div 10) @ [digit_char (n mod 10)])"

declare decimal.simps [simp del]

fun join_comma :: "string list \<Rightarrow> string" where
  "join_comma [] = []"
| "join_comma [s] = s"
| "join_comma (s # t # ts) = s @ '','' @ join_comma (t # ts)"

definition native_source :: "string \<Rightarrow> string" where
  "native_source f = ''function '' @ f @ ''() { [native code] }''"

text \<open>
  \<^verbatim>\<open>String(v)\<close>, which a template literal \<^verbatim>\<open>`${v}`\<close>, a computed property key
  \<^verbatim>\<open>o[v]\<close> and the string arguments of built-in functions apply to \<open>v\<close>. An array
  prints its elements joined by commas, with \<^verbatim>\<open>null\<close> and \<^verbatim>\<open>undefined\<close> elements
  printed as nothing. An object is printed by its \<^verbatim>\<open>toString\<close> method: a parsed object
  that has no key \<^verbatim>\<open>toString\<close> of its own inherits the one of \<^verbatim>\<open>Object.prototype\<close>,
  which prints \<^verbatim>\<open>[object Object]\<close>; one that has such a key holds a value there that
  cannot be called, the inherited \<^verbatim>\<open>valueOf\<close> (or a key \<^verbatim>\<open>valueOf\<close> of its own) gives
  no primitive either, and the conversion throws a TypeError.
\<close>

fun collect_texts :: "(error + string) list \<Rightarrow> error + string list" where
  "collect_texts [] = Inr []"
| "collect_texts (Inl e # rs) = Inl e"
| "collect_texts (Inr s # rs) =
     (case collect_texts rs of Inl e \<Rightarrow> Inl e | Inr ss \<Rightarrow> Inr (s # ss))"

fun js_to_string :: "jsval \<Rightarrow> error + string" where
  "js_to_string JUndef = Inr ''undefined''"
| "js_to_string JNull = Inr ''null''"
| "js_to_string (JBool b) = Inr (if b then ''true'' else ''false'')"
| "js_to_string (JNum s) = Inr s"
| "js_to_string (JStr s) = Inr s"
| "js_to_string (JArr xs) =
     (case collect_texts (map (\<lambda>x. if nullish x then Inr [] else js_to_string x) xs) of
        Inl e \<Rightarrow> Inl e
      | Inr ss \<Rightarrow> Inr (join_comma ss))"
| "js_to_string (JObj kvs) =
     (if map_of kvs ''toString'' = None then Inr ''[object Object]'' else Inl TypeError)"
| "js_to_string (JNative f) = Inr (native_source f)"

text \<open>Reading a data property of an object: \<^verbatim>\<open>o.k\<close> is \<^verbatim>\<open>undefined\<close> when \<open>o\<close> has no \<open>k\<close>.\<close>

definition js_field :: "obj \<Rightarrow> string \<Rightarrow> jsval" where
  "js_field kvs k = (case map_of kvs k of None \<Rightarrow> JUndef | Some v \<Rightarrow> v)"

text \<open>
  \<^verbatim>\<open>v.k\<close> on any value, for the data property names the script reads
  (\<^verbatim>\<open>links\<close>, \<^verbatim>\<open>github\<close>, \<^verbatim>\<open>id\<close>, \<^verbatim>\<open>categories\<close>, \<^verbatim>\<open>license\<close>, ...; none of them is a
  built-in of strings, arrays, numbers or \<^verbatim>\<open>Object.prototype\<close>): a TypeError on
  \<^verbatim>\<open>null\<close> and \<^verbatim>\<open>undefined\<close>, \<^verbatim>\<open>undefined\<close> on the other non-objects.
\<close>

fun js_get :: "jsval \<Rightarrow> string \<Rightarrow> error + jsval" where
  "js_get JUndef k = Inl TypeError"
| "js_get JNull k = Inl TypeError"
| "js_get (JObj kvs) k = Inr (js_field kvs k)"
| "js_get v k = Inr JUndef"

text \<open>
  Object spread \<^verbatim>\<open>{...v}\<close>: the own enumerable properties of \<open>v\<close>. An array and a
  string spread into their indexed elements; numbers, booleans, \<^verbatim>\<open>null\<close> and
  \<^verbatim>\<open>undefined\<close> spread into nothing. Setting a key after the spread
  (\<^verbatim>\<open>{...v, k: w}\<close>) is \<^const>\<open>AList.update\<close>: the value is replaced where the key
  stands, or the key is appended.
\<close>

fun spread :: "jsval \<Rightarrow> obj" where
  "spread (JObj kvs) = kvs"
| "spread (JArr xs) = zip (map decimal [0..<length xs]) xs"
| "spread (JStr s) = zip (map decimal [0..<length s]) (map (\<lambda>c. JStr [c]) s)"
| "spread v = []"

text \<open>
  \<^verbatim>\<open>xs.includes(v)\<close> compares with SameValueZero: primitives by value; an object or an
  array only with itself, and the values compared here come from different files.
\<close>

fun same_value_zero :: "jsval \<Rightarrow> jsval \<Rightarrow> bool" where
  "same_value_zero x (JArr ys) = False"
| "same_value_zero x (JObj kvs) = False"
| "same_value_zero x v = (x = v)"

definition js_includes :: "jsval list \<Rightarrow> jsval \<Rightarrow> bool" where
  "js_includes xs v = list_ex (\<lambda>x. same_value_zero x v) xs"

section \<open>The environment of a run\<close>

text \<open>
  Everything the script takes from outside: the file system (\<^verbatim>\<open>fs\<close>, \<^verbatim>\<open>glob\<close>), the
  network (\<^verbatim>\<open>fetch\<close>), the platform's URL parser and string collation, and the clock.
  \<open>read_json p\<close> is \<^verbatim>\<open>JSON.parse(fs.readFileSync(p, 'utf8'))\<close>, \<open>None\<close> when either
  call throws. \<open>read_project\<close> is the same for a \<^verbatim>\<open>project.json\<close>, decoded to the shape
  of a project configuration. \<open>http_fetch u\<close> is \<open>None\<close> when \<^verbatim>\<open>fetch\<close> rejects, and the
  body of a response is \<open>None\<close> when \<^verbatim>\<open>response.json()\<close> rejects. \<open>parse_url s\<close> is
  \<^verbatim>\<open>new URL(s)\<close>, \<open>None\<close> when it throws. The three \<^verbatim>\<open>glob\<close> calls are taken to
  return their lists of paths.
\<close>

record url =
  hostname :: string

record response =
  ok :: bool
  json_body :: "jsval option"

text \<open>
  A project configuration, as \<^verbatim>\<open>JSON.parse\<close> returns it for a \<^verbatim>\<open>project.json\<close>. The
  three filter fields are taken to be arrays when they are present (\<open>None\<close>: the field is
  absent); their elements, and \<open>cfg_id\<close>, \<open>cfg_name\<close> and \<open>cfg_description\<close>
  (\<^verbatim>\<open>projectConfig.id\<close>, \<^verbatim>\<open>.name\<close> and \<^verbatim>\<open>.description\<close>, \<open>JUndef\<close> when absent) are any
  values. A file that holds \<^verbatim>\<open>null\<close> counts as unreadable: reading
  \<^verbatim>\<open>projectConfig.name\<close> throws in the same \<^verbatim>\<open>try\<close> block as \<^verbatim>\<open>JSON.parse\<close>.
\<close>

record project_config =
  cfg_id :: jsval
  cfg_name :: jsval
  cfg_description :: jsval
  include_only :: "jsval list option"
  exclude_apps :: "jsval list option"
  featured_categories :: "jsval list option"

record env =
  dist_exists :: bool
  mkdir_ok :: bool
  glob_apps :: "string list"
  glob_projects :: "string list"
  glob_categories :: "string list"
  file_exists :: "string \<Rightarrow> bool"
  read_json :: "string \<Rightarrow> jsval option"
  read_project :: "string \<Rightarrow> project_config option"
  write_ok :: "string \<Rightarrow> bool"
  parse_url :: "string \<Rightarrow> url option"
  http_fetch :: "string \<Rightarrow> response option"
  locale_compare :: "string \<Rightarrow> string \<Rightarrow> int"
  now :: string

section \<open>fetchGitHubMetadata\<close>

text \<open>
  The pattern \<^verbatim>\<open>/github\.com\/([^/]+)\/([^/]+)/\<close>, searched from the left: at the first
  position where \<^verbatim>\<open>github.com/\<close> is followed by a non-empty run without a slash, a
  slash, and another non-empty run without a slash, the two runs are the owner and the
  repository.
\<close>

definition match_here :: "string \<Rightarrow> (string \<times> string) option" where
  "match_here s =
     (if take 11 s = ''github.com/'' then
        (let r = drop 11 s;
             owner = takeWhile (\<lambda>c. c \<noteq> CHR ''/'') r;
             r' = dropWhile (\<lambda>c. c \<noteq> CHR ''/'') r;
             repo = takeWhile (\<lambda>c. c \<noteq> CHR ''/'') (drop 1 r')
         in if owner \<noteq> [] \<and> r' \<noteq> [] \<and> repo \<noteq> [] then Some (owner, repo) else None)
      else None)"

fun regex_exec :: "string \<Rightarrow> (string \<times> string) option" where
  "regex_exec [] = match_here []"
| "regex_exec (c # cs) =
     (case match_here (c # cs) of Some m \<Rightarrow> Some m | None \<Rightarrow> regex_exec cs)"

text \<open>\<^verbatim>\<open>repo.replace(/\.git$/, '')\<close>.\<close>

definition strip_git :: "string \<Rightarrow> string" where
  "strip_git repo =
     (if 4 \<le> length repo \<and> drop (length repo - 4) repo = ''.git''
      then take (length repo - 4) repo else repo)"

definition api_url :: "string \<Rightarrow> string \<Rightarrow> string" where
  "api_url owner repo = ''https://api.github.com/repos/'' @ owner @ ''/'' @ strip_git repo"

text \<open>The object built from the response body; \<^verbatim>\<open>data.license?.spdx_id || null\<close>.\<close>

definition license_of :: "jsval \<Rightarrow> jsval" where
  "license_of lic =
     (if nullish lic then JNull
      else (case js_get lic ''spdx_id'' of
              Inr v \<Rightarrow> if truthy v then v else JNull
            | Inl e \<Rightarrow> JNull))"

definition metadata_of :: "jsval \<Rightarrow> error + jsval" where
  "metadata_of data =
     (case js_get data ''stargazers_count'' of
        Inl e \<Rightarrow> Inl e
      | Inr stars \<Rightarrow>
     (case js_get data ''open_issues_count'' of
        Inl e \<Rightarrow> Inl e
      | Inr issues \<Rightarrow>
     (case js_get data ''forks_count'' of
        Inl e \<Rightarrow> Inl e
      | Inr forks \<Rightarrow>
     (case js_get data ''updated_at'' of
        Inl e \<Rightarrow> Inl e
      | Inr upd \<Rightarrow>
     (case js_get data ''license'' of
        Inl e \<Rightarrow> Inl e
      | Inr lic \<Rightarrow>
          Inr (JObj [(''stars'', stars), (''openIssues'', issues), (''forks'', forks),
                     (''lastUpdated'', upd), (''license'', license_of lic)]))))))"

text \<open>
  The result is \<open>None\<close> for \<^verbatim>\<open>null\<close>; the log holds the warning of the \<^verbatim>\<open>catch\<close> block.
  \<^verbatim>\<open>new URL(repoUrl)\<close> and the pattern both read \<^verbatim>\<open>String(repoUrl)\<close>; a link that
  cannot be converted throws inside the \<^verbatim>\<open>try\<close>.
\<close>

definition fetchGitHubMetadata :: "env \<Rightarrow> jsval \<Rightarrow> log_event list \<times> jsval option" where
  "fetchGitHubMetadata e repoUrl =
     (if \<not> truthy repoUrl then ([], None)
      else (case js_to_string repoUrl of
          Inl err \<Rightarrow> ([Warning_metadata], None)
        | Inr text \<Rightarrow>
      (case parse_url e text of
          None \<Rightarrow> ([Warning_metadata], None)
        | Some u \<Rightarrow>
            if hostname u \<noteq> ''github.com'' then ([], None)
            else (case regex_exec text of
                None \<Rightarrow> ([], None)
              | Some (owner, repo) \<Rightarrow>
                  (case http_fetch e (api_url owner repo) of
                      None \<Rightarrow> ([Warning_metadata], None)
                    | Some resp \<Rightarrow>
                        if \<not> ok resp then ([], None)
                        else (case json_body resp of
                            None \<Rightarrow> ([Warning_metadata], None)
                          | Some data \<Rightarrow>
                              (case metadata_of data of
                                  Inl err \<Rightarrow> ([Warning_metadata], None)
                                | Inr m \<Rightarrow> ([], Some m))))))))"

section \<open>loadAllApps\<close>

text \<open>\<^verbatim>\<open>app.links?.github\<close>: a TypeError when \<open>app\<close> itself is \<^verbatim>\<open>null\<close>.\<close>

definition links_github :: "jsval \<Rightarrow> error + jsval" where
  "links_github app =
     (case js_get app ''links'' of
        Inl e \<Rightarrow> Inl e
      | Inr l \<Rightarrow> if nullish l then Inr JUndef else js_get l ''github'')"

text \<open>
  \<^verbatim>\<open>{...app, ...(githubMetadata && {github: githubMetadata})}\<close>: spreading \<^verbatim>\<open>null\<close>
  adds nothing.
\<close>

definition index_entry :: "jsval \<Rightarrow> jsval option \<Rightarrow> obj" where
  "index_entry app meta =
     (case meta of None \<Rightarrow> spread app | Some m \<Rightarrow> AList.update ''github'' m (spread app))"

text \<open>The metadata requested for a parsed record: none when it has no truthy \<^verbatim>\<open>links.github\<close>.\<close>

definition enrich :: "env \<Rightarrow> jsval \<Rightarrow> log_event list \<times> jsval option" where
  "enrich e g = (if truthy g then fetchGitHubMetadata e g else ([], None))"

text \<open>
  The message of \<^verbatim>\<open>console.log(`  Fetching GitHub metadata for ${app.id}...`)\<close>, which
  is built, inside the \<^verbatim>\<open>try\<close>, when the record has a truthy \<^verbatim>\<open>links.github\<close>: an
  \<^verbatim>\<open>id\<close> that cannot be converted to a string throws there.
\<close>

definition fetching_message :: "jsval \<Rightarrow> error + string" where
  "fetching_message app =
     (case js_get app ''id'' of
        Inl err \<Rightarrow> Inl err
      | Inr v \<Rightarrow>
          (case js_to_string v of
             Inl err \<Rightarrow> Inl err
           | Inr text \<Rightarrow> Inr (''  Fetching GitHub metadata for '' @ text @ ''...'')))"

definition announce :: "jsval \<Rightarrow> jsval \<Rightarrow> error + string" where
  "announce app g = (if truthy g then fetching_message app else Inr [])"

text \<open>
  One iteration of the loop over the app files: the log, and the entry pushed (if any).
  Every exception is caught, logged, and ends the iteration without an entry.
\<close>

definition load_app :: "env \<Rightarrow> string \<Rightarrow> log_event list \<times> obj option" where
  "load_app e file =
     (case read_json e file of
        None \<Rightarrow> ([Error_processing file], None)
      | Some app \<Rightarrow>
          (case links_github app of
             Inl err \<Rightarrow> ([Error_processing file], None)
           | Inr g \<Rightarrow>
               (case announce app g of
                  Inl err \<Rightarrow> ([Error_processing file], None)
                | Inr message \<Rightarrow>
                    (fst (enrich e g), Some (index_entry app (snd (enrich e g)))))))"

fun load_files :: "env \<Rightarrow> string list \<Rightarrow> log_event list \<times> obj list" where
  "load_files e [] = ([], [])"
| "load_files e (f # fs) =
     (fst (load_app e f) @ fst (load_files e fs),
      (case snd (load_app e f) of None \<Rightarrow> [] | Some entry \<Rightarrow> [entry]) @ snd (load_files e fs))"

definition loadAllApps :: "env \<Rightarrow> log_event list \<times> obj list" where
  "loadAllApps e = load_files e (glob_apps e)"

section \<open>Counting apps per category\<close>

text \<open>
  \<^verbatim>\<open>categoryCounts\<close> is a plain object \<^verbatim>\<open>{}\<close> used as a dictionary, so a key it does
  not own is looked up in \<^verbatim>\<open>Object.prototype\<close>. These are the function-valued
  properties found there (property name, name of the function), as in Node;
  \<^verbatim>\<open>__proto__\<close> is an accessor that yields \<^verbatim>\<open>Object.prototype\<close> itself, an object
  without enumerable properties, and ignores the assignment of a number or a string.
\<close>

definition object_prototype_functions :: "(string \<times> string) list" where
  "object_prototype_functions =
     [(''constructor'', ''Object''),
      (''__defineGetter__'', ''__defineGetter__''),
      (''__defineSetter__'', ''__defineSetter__''),
      (''hasOwnProperty'', ''hasOwnProperty''),
      (''__lookupGetter__'', ''__lookupGetter__''),
      (''__lookupSetter__'', ''__lookupSetter__''),
      (''isPrototypeOf'', ''isPrototypeOf''),
      (''propertyIsEnumerable'', ''propertyIsEnumerable''),
      (''toString'', ''toString''),
      (''valueOf'', ''valueOf''),
      (''toLocaleString'', ''toLocaleString'')]"

text \<open>
  A value stored in \<^verbatim>\<open>categoryCounts\<close>: a count, or the text that \<^verbatim>\<open>+ 1\<close> makes of
  an inherited function or of an earlier such text.
\<close>

datatype tally = Tally nat | Text string

text \<open>
  \<^verbatim>\<open>categoryCounts[k] = (categoryCounts[k] || 0) + 1\<close> for a property key \<open>k\<close>. A stored
  count is at least 1 and a stored text is not empty, so both are truthy.
\<close>

definition bump :: "(string \<times> tally) list \<Rightarrow> string \<Rightarrow> (string \<times> tally) list" where
  "bump counts k =
     (case map_of counts k of
        Some (Tally n) \<Rightarrow> AList.update k (Tally (n + 1)) counts
      | Some (Text s) \<Rightarrow> AList.update k (Text (s @ ''1'')) counts
      | None \<Rightarrow>
          if k = ''__proto__'' then counts
          else (case map_of object_prototype_functions k of
              Some f \<Rightarrow> AList.update k (Text (native_source f @ ''1'')) counts
            | None \<Rightarrow> AList.update k (Tally 1) counts))"

text \<open>
  The body of the \<^verbatim>\<open>forEach\<close>: \<^verbatim>\<open>app.category\<close> is converted to a property key, which
  throws for a category that cannot be converted to a string.
\<close>

definition count_step :: "(string \<times> tally) list \<Rightarrow> obj \<Rightarrow> error + (string \<times> tally) list" where
  "count_step counts app =
     (case js_to_string (js_field app ''category'') of
        Inl err \<Rightarrow> Inl err
      | Inr k \<Rightarrow> Inr (bump counts k))"

fun count_loop :: "(string \<times> tally) list \<Rightarrow> obj list \<Rightarrow> error + (string \<times> tally) list" where
  "count_loop counts [] = Inr counts"
| "count_loop counts (app # as) =
     (case count_step counts app of
        Inl err \<Rightarrow> Inl err
      | Inr counts' \<Rightarrow> count_loop counts' as)"

definition count_apps :: "obj list \<Rightarrow> error + (string \<times> tally) list" where
  "count_apps as = count_loop [] as"

text \<open>\<^verbatim>\<open>categoryCounts[key] || 0\<close>, with \<open>key\<close> already converted to a property key.\<close>

definition count_of :: "(string \<times> tally) list \<Rightarrow> string \<Rightarrow> jsval" where
  "count_of counts k =
     (case map_of counts k of
        Some (Tally n) \<Rightarrow> JNum (decimal n)
      | Some (Text s) \<Rightarrow> JStr s
      | None \<Rightarrow>
          if k = ''__proto__'' then JObj []
          else (case map_of object_prototype_functions k of
              Some f \<Rightarrow> JNative f
            | None \<Rightarrow> JNum ''0''))"

section \<open>Sorting\<close>

definition featured :: "obj \<Rightarrow> bool" where
  "featured a = truthy (js_field a ''featured'')"

text \<open>
  The comparator of both \<^verbatim>\<open>toSorted\<close> calls. \<^verbatim>\<open>a.name.localeCompare(b.name)\<close> is a
  TypeError unless \<^verbatim>\<open>a.name\<close> is a string; the argument is converted to a string,
  which can throw as well.
\<close>

definition compare_apps :: "env \<Rightarrow> obj \<Rightarrow> obj \<Rightarrow> error + int" where
  "compare_apps e a b =
     (if featured a \<and> \<not> featured b then Inr (- 1)
      else if \<not> featured a \<and> featured b then Inr 1
      else (case js_field a ''name'' of
          JStr s \<Rightarrow>
            (case js_to_string (js_field b ''name'') of
               Inl err \<Rightarrow> Inl err
             | Inr t \<Rightarrow> Inr (locale_compare e s t))
        | JUndef \<Rightarrow> Inl TypeError
        | JNull \<Rightarrow> Inl TypeError
        | JBool b \<Rightarrow> Inl TypeError
        | JNum n \<Rightarrow> Inl TypeError
        | JArr xs \<Rightarrow> Inl TypeError
        | JObj kvs \<Rightarrow> Inl TypeError
        | JNative f \<Rightarrow> Inl TypeError))"

text \<open>
  \<^verbatim>\<open>Array.prototype.toSorted\<close> is a stable sort. For a comparator that never throws
  and is a consistent total preorder every stable sort returns the same list, so the
  engine's algorithm is modelled by stable insertion sort; an exception of the comparator
  ends the sort. Which pairs an engine compares, and in which order it passes them to the
  comparator, is its own choice (Node's engine passes the later element first, the
  insertion sort here the earlier one): on a list where some comparison would throw, the
  engine may return where the model throws, and throw where the model returns. The model
  and the engine agree whenever every name is a string.
\<close>

fun insert_sorted :: "('a \<Rightarrow> 'a \<Rightarrow> error + int) \<Rightarrow> 'a \<Rightarrow> 'a list \<Rightarrow> error + 'a list" where
  "insert_sorted cmp x [] = Inr [x]"
| "insert_sorted cmp x (y # ys) =
     (case cmp x y of
        Inl e \<Rightarrow> Inl e
      | Inr c \<Rightarrow>
          if c \<le> 0 then Inr (x # y # ys)
          else (case insert_sorted cmp x ys of Inl e \<Rightarrow> Inl e | Inr zs \<Rightarrow> Inr (y # zs)))"

fun toSorted :: "('a \<Rightarrow> 'a \<Rightarrow> error + int) \<Rightarrow> 'a list \<Rightarrow> error + 'a list" where
  "toSorted cmp [] = Inr []"
| "toSorted cmp (x # xs) =
     (case toSorted cmp xs of Inl e \<Rightarrow> Inl e | Inr ys \<Rightarrow> insert_sorted cmp x ys)"

section \<open>buildProjectIndex\<close>

text \<open>The three filters, each applied to the result of the one before.\<close>

definition apply_include_only :: "project_config \<Rightarrow> obj list \<Rightarrow> obj list" where
  "apply_include_only cfg projectApps =
     (case include_only cfg of
        Some ids \<Rightarrow>
          if ids \<noteq> [] then filter (\<lambda>app. js_includes ids (js_field app ''id'')) projectApps
          else projectApps
      | None \<Rightarrow> projectApps)"

definition apply_exclude_apps :: "project_config \<Rightarrow> obj list \<Rightarrow> obj list" where
  "apply_exclude_apps cfg projectApps =
     (case exclude_apps cfg of
        Some ids \<Rightarrow>
          if ids \<noteq> [] then filter (\<lambda>app. \<not> js_includes ids (js_field app ''id'')) projectApps
          else projectApps
      | None \<Rightarrow> projectApps)"

definition apply_featured_categories :: "project_config \<Rightarrow> obj list \<Rightarrow> obj list" where
  "apply_featured_categories cfg projectApps =
     (case featured_categories cfg of
        Some cs \<Rightarrow>
          if cs \<noteq> [] then filter (\<lambda>app. js_includes cs (js_field app ''category'')) projectApps
          else projectApps
      | None \<Rightarrow> projectApps)"

definition filter_apps :: "project_config \<Rightarrow> obj list \<Rightarrow> obj list" where
  "filter_apps cfg allApps =
     apply_featured_categories cfg (apply_exclude_apps cfg (apply_include_only cfg allApps))"

text \<open>
  \<^verbatim>\<open>data.categories.map(...)\<close> and \<^verbatim>\<open>data.categories.forEach(...)\<close>: a TypeError unless
  \<^verbatim>\<open>data.categories\<close> is an array.
\<close>

definition category_list :: "jsval \<Rightarrow> error + jsval list" where
  "category_list data =
     (case js_get data ''categories'' of
        Inl e \<Rightarrow> Inl e
      | Inr (JArr cs) \<Rightarrow> Inr cs
      | Inr v \<Rightarrow> Inl TypeError)"

text \<open>The template literal \<^verbatim>\<open>`${projectId}:${v}`\<close>, for the text \<open>k\<close> of \<open>v\<close>.\<close>

definition namespaced :: "string \<Rightarrow> string \<Rightarrow> string" where
  "namespaced projectId k = projectId @ '':'' @ k"

text \<open>
  \<^verbatim>\<open>{...cat, id: `${projectId}:${cat.id}`, originalId: cat.id, count: categoryCounts[cat.id] || 0}\<close>;
  \<^verbatim>\<open>cat.id\<close> is a TypeError when \<open>cat\<close> is \<^verbatim>\<open>null\<close>, and so is the template literal
  when the id cannot be converted to a string.
\<close>

definition namespace_category ::
    "string \<Rightarrow> (string \<times> tally) list \<Rightarrow> jsval \<Rightarrow> error + obj" where
  "namespace_category projectId counts cat =
     (case js_get cat ''id'' of
        Inl e \<Rightarrow> Inl e
      | Inr cid \<Rightarrow>
          (case js_to_string cid of
             Inl e \<Rightarrow> Inl e
           | Inr k \<Rightarrow>
               Inr (AList.update ''count'' (count_of counts k)
                     (AList.update ''originalId'' cid
                       (AList.update ''id'' (JStr (namespaced projectId k)) (spread cat))))))"

fun map_result :: "('a \<Rightarrow> error + 'b) \<Rightarrow> 'a list \<Rightarrow> error + 'b list" where
  "map_result f [] = Inr []"
| "map_result f (x # xs) =
     (case f x of
        Inl e \<Rightarrow> Inl e
      | Inr y \<Rightarrow> (case map_result f xs of Inl e \<Rightarrow> Inl e | Inr ys \<Rightarrow> Inr (y # ys)))"

text \<open>\<^verbatim>\<open>{...app, category: `${projectId}:${app.category}`}\<close>.\<close>

definition namespace_app :: "string \<Rightarrow> obj \<Rightarrow> error + obj" where
  "namespace_app projectId app =
     (case js_to_string (js_field app ''category'') of
        Inl e \<Rightarrow> Inl e
      | Inr k \<Rightarrow> Inr (AList.update ''category'' (JStr (namespaced projectId k)) app))"

definition PROJECT_INDEX_VERSION :: string where
  "PROJECT_INDEX_VERSION = ''0.1.0''"

definition MASTER_INDEX_VERSION :: string where
  "MASTER_INDEX_VERSION = ''0.1.0''"

text \<open>
  An index as it is handed to \<^verbatim>\<open>JSON.stringify\<close>; the master index has no
  \<^verbatim>\<open>project\<close> key.
\<close>

record index =
  idx_version :: string
  idx_project :: "obj option"
  idx_updated :: string
  idx_apps :: "obj list"
  idx_categories :: "obj list"

definition categories_path :: "string \<Rightarrow> string" where
  "categories_path projectId = ''projects/'' @ projectId @ ''/categories.json''"

definition project_header :: "project_config \<Rightarrow> obj" where
  "project_header cfg =
     [(''id'', cfg_id cfg), (''name'', cfg_name cfg),
      (''description'', if truthy (cfg_description cfg) then cfg_description cfg else JStr [])]"

text \<open>
  The result is \<open>Inr None\<close> for \<^verbatim>\<open>return null\<close> (no category file), \<open>Inl\<close> for an
  exception, which the caller catches.
\<close>

definition buildProjectIndex ::
    "env \<Rightarrow> string \<Rightarrow> project_config \<Rightarrow> obj list \<Rightarrow> log_event list \<times> (error + index option)" where
  "buildProjectIndex e projectId projectConfig allApps =
     (let projectApps = filter_apps projectConfig allApps;
          categoriesPath = categories_path projectId
      in if \<not> file_exists e categoriesPath
         then ([Categories_not_found projectId categoriesPath], Inr None)
         else (case read_json e categoriesPath of
             None \<Rightarrow> ([], Inl FileError)
           | Some categoriesData \<Rightarrow>
         (case count_apps projectApps of
             Inl err \<Rightarrow> ([], Inl err)
           | Inr categoryCounts \<Rightarrow>
         (case category_list categoriesData of
             Inl err \<Rightarrow> ([], Inl err)
           | Inr cats \<Rightarrow>
         (case map_result (namespace_category projectId categoryCounts) cats of
             Inl err \<Rightarrow> ([], Inl err)
           | Inr categories \<Rightarrow>
         (case map_result (namespace_app projectId) projectApps of
             Inl err \<Rightarrow> ([], Inl err)
           | Inr namespacedApps \<Rightarrow>
         (case toSorted (compare_apps e) namespacedApps of
             Inl err \<Rightarrow> ([], Inl err)
           | Inr sortedApps \<Rightarrow>
               ([], Inr (Some \<lparr>idx_version = PROJECT_INDEX_VERSION,
                             idx_project = Some (project_header projectConfig),
                             idx_updated = now e,
                             idx_apps = sortedApps,
                             idx_categories = categories\<rparr>)))))))))"

section \<open>buildIndexes\<close>

text \<open>
  \<^verbatim>\<open>path.dirname\<close> and \<^verbatim>\<open>path.basename\<close>, for the relative paths that \<^verbatim>\<open>glob\<close>
  returns (no trailing and no doubled slash).
\<close>

definition dirname :: "string \<Rightarrow> string" where
  "dirname p =
     (if CHR ''/'' \<in> set p
      then (let d = rev (drop 1 (dropWhile (\<lambda>c. c \<noteq> CHR ''/'') (rev p)))
            in if d = [] then ''/'' else d)
      else ''.'')"

definition basename :: "string \<Rightarrow> string" where
  "basename p = rev (takeWhile (\<lambda>c. c \<noteq> CHR ''/'') (rev p))"

definition output_path :: "string \<Rightarrow> string" where
  "output_path projectId = ''dist/'' @ projectId @ ''.json''"

text \<open>
  The body of the loop over the project files, inside its \<^verbatim>\<open>try\<close>: what it logs with
  \<^verbatim>\<open>console.error\<close>, and the artifact it writes (if any). Every exception is caught
  and logged: that of \<^verbatim>\<open>fs.writeFileSync\<close>, and that of the message
  \<^verbatim>\<open>`\nBuilding index for project: ${projectConfig.name}`\<close>, built before the index,
  for a name that cannot be converted to a string.
\<close>

definition build_project ::
    "env \<Rightarrow> obj list \<Rightarrow> string \<Rightarrow> log_event list \<times> (string \<times> index) option" where
  "build_project e allApps projectFile =
     (let projectId = basename (dirname projectFile) in
      case read_project e projectFile of
        None \<Rightarrow> ([Error_building projectFile], None)
      | Some projectConfig \<Rightarrow>
          (case js_to_string (cfg_name projectConfig) of
             Inl err \<Rightarrow> ([Error_building projectFile], None)
           | Inr name \<Rightarrow>
          (case snd (buildProjectIndex e projectId projectConfig allApps) of
             Inl err \<Rightarrow>
               (fst (buildProjectIndex e projectId projectConfig allApps)
                  @ [Error_building projectFile], None)
           | Inr None \<Rightarrow> (fst (buildProjectIndex e projectId projectConfig allApps), None)
           | Inr (Some idx) \<Rightarrow>
               if write_ok e (output_path projectId)
               then (fst (buildProjectIndex e projectId projectConfig allApps),
                     Some (output_path projectId, idx))
               else (fst (buildProjectIndex e projectId projectConfig allApps)
                       @ [Error_building projectFile], None))))"

fun build_projects ::
    "env \<Rightarrow> obj list \<Rightarrow> string list \<Rightarrow> log_event list \<times> (string \<times> index) list" where
  "build_projects e allApps [] = ([], [])"
| "build_projects e allApps (projectFile # files) =
     (fst (build_project e allApps projectFile) @ fst (build_projects e allApps files),
      (case snd (build_project e allApps projectFile) of None \<Rightarrow> [] | Some w \<Rightarrow> [w])
        @ snd (build_projects e allApps files))"

text \<open>
  \<^verbatim>\<open>{...cat, id: namespacedId, originalId: cat.id, project: projectId}\<close>.
\<close>

definition master_category :: "string \<Rightarrow> jsval \<Rightarrow> jsval \<Rightarrow> string \<Rightarrow> obj" where
  "master_category projectId cat cid k =
     AList.update ''project'' (JStr projectId)
       (AList.update ''originalId'' cid
         (AList.update ''id'' (JStr (namespaced projectId k)) (spread cat)))"

text \<open>
  \<^verbatim>\<open>categoryData\<close>, keyed by namespaced id in insertion order (a namespaced id holds a
  colon, so it is neither an array index nor a property of \<^verbatim>\<open>Object.prototype\<close>); the set
  \<^verbatim>\<open>allCategories\<close> holds exactly its keys. The first definition of an id is kept.
  \<^verbatim>\<open>`${projectId}:${cat.id}`\<close> throws for an id that cannot be converted to a string.
\<close>

fun add_categories ::
    "string \<Rightarrow> jsval list \<Rightarrow> (string \<times> obj) list \<Rightarrow> error + (string \<times> obj) list" where
  "add_categories projectId [] categoryData = Inr categoryData"
| "add_categories projectId (cat # cats) categoryData =
     (case js_get cat ''id'' of
        Inl err \<Rightarrow> Inl err
      | Inr cid \<Rightarrow>
          (case js_to_string cid of
             Inl err \<Rightarrow> Inl err
           | Inr k \<Rightarrow>
               add_categories projectId cats
                 (if map_of categoryData (namespaced projectId k) = None
                  then categoryData
                         @ [(namespaced projectId k, master_category projectId cat cid k)]
                  else categoryData)))"

text \<open>The loop over the category files: it has no \<^verbatim>\<open>try\<close>, so an exception ends it.\<close>

fun collect_categories ::
    "env \<Rightarrow> string list \<Rightarrow> (string \<times> obj) list \<Rightarrow> error + (string \<times> obj) list" where
  "collect_categories e [] categoryData = Inr categoryData"
| "collect_categories e (catFile # files) categoryData =
     (case read_json e catFile of
        None \<Rightarrow> Inl FileError
      | Some data \<Rightarrow>
          (case category_list data of
             Inl err \<Rightarrow> Inl err
           | Inr cats \<Rightarrow>
               (case add_categories (basename (dirname catFile)) cats categoryData of
                  Inl err \<Rightarrow> Inl err
                | Inr categoryData' \<Rightarrow> collect_categories e files categoryData')))"

text \<open>\<^verbatim>\<open>{...cat, count: categoryCounts[cat.originalId] || 0}\<close>.\<close>

definition master_count :: "(string \<times> tally) list \<Rightarrow> obj \<Rightarrow> error + obj" where
  "master_count counts cat =
     (case js_to_string (js_field cat ''originalId'') of
        Inl err \<Rightarrow> Inl err
      | Inr k \<Rightarrow> Inr (AList.update ''count'' (count_of counts k) cat))"

text \<open>
  The master index: the categories are collected, the apps are counted, the counts are
  attached and the apps are sorted, in this order; the first exception ends it.
\<close>

definition build_master :: "env \<Rightarrow> obj list \<Rightarrow> error + index" where
  "build_master e allApps =
     (case collect_categories e (glob_categories e) [] of
        Inl err \<Rightarrow> Inl err
      | Inr categoryData \<Rightarrow>
     (case count_apps allApps of
        Inl err \<Rightarrow> Inl err
      | Inr categoryCounts \<Rightarrow>
     (case map_result (master_count categoryCounts) (map snd categoryData) of
        Inl err \<Rightarrow> Inl err
      | Inr masterCategories \<Rightarrow>
     (case toSorted (compare_apps e) allApps of
        Inl err \<Rightarrow> Inl err
      | Inr sortedApps \<Rightarrow>
          Inr \<lparr>idx_version = MASTER_INDEX_VERSION,
               idx_project = None,
               idx_updated = now e,
               idx_apps = sortedApps,
               idx_categories = masterCategories\<rparr>))))"

text \<open>
  The state a run leaves behind: the artifacts written, in order, and what went to
  \<^verbatim>\<open>console.error\<close>. The second component of the result of \<open>buildIndexes\<close> is \<open>Inl\<close>
  when the promise is rejected.
\<close>

record state =
  written :: "(string \<times> index) list"
  console_errors :: "log_event list"

definition master_path :: string where
  "master_path = ''dist/index.json''"

definition buildIndexes :: "env \<Rightarrow> state \<times> (error + unit)" where
  "buildIndexes e =
     (if \<not> dist_exists e \<and> \<not> mkdir_ok e
      then (\<lparr>written = [], console_errors = []\<rparr>, Inl MkdirError)
      else
        (let allApps = snd (loadAllApps e);
             st = \<lparr>written = snd (build_projects e allApps (glob_projects e)),
                    console_errors =
                      fst (loadAllApps e) @ fst (build_projects e allApps (glob_projects e))\<rparr>
         in case build_master e allApps of
              Inl err \<Rightarrow> (st, Inl err)
            | Inr masterIndex \<Rightarrow>
                if write_ok e master_path
                then (st\<lparr>written := written st @ [(master_path, masterIndex)]\<rparr>, Inr ())
                else (st, Inl WriteError)))"

text \<open>
  The script's last statement, \<^verbatim>\<open>buildIndexes().catch(console.error)\<close>: a rejection is
  printed and the handler returns, so the process ends with the exit status of a normal
  end.
\<close>

record run =
  final_state :: state
  exit_status :: nat

definition run_script :: "env \<Rightarrow> run" where
  "run_script e =
     \<lparr>final_state =
        (fst (buildIndexes e))
          \<lparr>console_errors :=
             console_errors (fst (buildIndexes e))
               @ (case snd (buildIndexes e) of Inl err \<Rightarrow> [Unhandled err] | Inr u \<Rightarrow> [])\<rparr>,
      exit_status = 0\<rparr>"

section \<open>Properties of the output\<close>

text \<open>
  Removing a prefix from a string: \<open>None\<close> when the string does not start with it.
\<close>

definition strip_prefix :: "string \<Rightarrow> string \<Rightarrow> string option" where
  "strip_prefix p s = (if take (length p) s = p then Some (drop (length p) s) else None)"

text \<open>
  A category of an index is namespaced by \<open>projectId\<close>: its \<^verbatim>\<open>id\<close> is the project id, a
  colon and the text of its \<^verbatim>\<open>originalId\<close> (as a template literal prints it), and
  stripping the prefix from the id gives that text.
\<close>

definition namespaced_by :: "string \<Rightarrow> obj \<Rightarrow> bool" where
  "namespaced_by projectId c =
     (case js_to_string (js_field c ''originalId'') of
        Inr k \<Rightarrow>
          (case js_field c ''id'' of
             JStr i \<Rightarrow> i = projectId @ '':'' @ k \<and> strip_prefix (projectId @ '':'') i = Some k
           | _ \<Rightarrow> False)
      | Inl err \<Rightarrow> False)"

definition from_project :: "string \<Rightarrow> obj \<Rightarrow> bool" where
  "from_project projectId c = (namespaced_by projectId c \<and> js_field c ''project'' = JStr projectId)"

text \<open>
  The original id of a category is recovered from its \<^verbatim>\<open>id\<close>: the id is a string, and
  stripping the project id and the colon from it gives the \<^verbatim>\<open>originalId\<close> field itself.
\<close>

definition exactly_recoverable :: "string \<Rightarrow> obj \<Rightarrow> bool" where
  "exactly_recoverable projectId c =
     (case js_field c ''id'' of
        JStr i \<Rightarrow> map_option JStr (strip_prefix (projectId @ '':'') i) = Some (js_field c ''originalId'')
      | _ \<Rightarrow> False)"

definition string_id :: "obj \<Rightarrow> bool" where
  "string_id c = (case js_field c ''originalId'' of JStr s \<Rightarrow> True | _ \<Rightarrow> False)"

text \<open>Every app of an index has a category that is the id of a category of that index.\<close>

definition categories_closed :: "index \<Rightarrow> bool" where
  "categories_closed idx =
     list_all (\<lambda>a. list_ex (\<lambda>c. js_field c ''id'' = js_field a ''category'') (idx_categories idx))
       (idx_apps idx)"

text \<open>
  The order that the comparator decides between two apps whose names are strings:
  featured apps first, then by \<^verbatim>\<open>localeCompare\<close> of the names (\<open>name_of\<close> is the
  name when it is a string).
\<close>

definition has_name :: "obj \<Rightarrow> bool" where
  "has_name a = (case js_field a ''name'' of JStr s \<Rightarrow> True | _ \<Rightarrow> False)"

definition name_of :: "obj \<Rightarrow> string" where
  "name_of a = (case js_field a ''name'' of JStr s \<Rightarrow> s | _ \<Rightarrow> [])"

definition app_le :: "env \<Rightarrow> obj \<Rightarrow> obj \<Rightarrow> bool" where
  "app_le e a b =
     ((featured b \<longrightarrow> featured a) \<and>
      (featured a = featured b \<longrightarrow> locale_compare e (name_of a) (name_of b) \<le> 0))"

definition total_preorder :: "(string \<Rightarrow> string \<Rightarrow> int) \<Rightarrow> bool" where
  "total_preorder cmp =
     ((\<forall>x y. cmp x y \<le> 0 \<or> cmp y x \<le> 0) \<and>
      (\<forall>x y z. cmp x y \<le> 0 \<longrightarrow> cmp y z \<le> 0 \<longrightarrow> cmp x z \<le> 0))"

text \<open>
  The order of the specification: featured apps first, then the lower-cased names
  compared as JavaScript's \<^verbatim>\<open><=\<close> compares strings, by code units (\<open>\<le>\<close> on strings
  is that order here). \<open>toLowerCase\<close> is given for ASCII text.
\<close>

definition toLowerCase :: "string \<Rightarrow> string" where
  "toLowerCase s =
     map (\<lambda>c. if CHR ''A'' \<le> c \<and> c \<le> CHR ''Z'' then char_of (of_char c + (32::nat)) else c) s"

definition lowercase_le :: "obj \<Rightarrow> obj \<Rightarrow> bool" where
  "lowercase_le a b =
     ((featured b \<longrightarrow> featured a) \<and>
      (featured a = featured b \<longrightarrow> toLowerCase (name_of a) \<le> toLowerCase (name_of b)))"

text \<open>
  The property key that an app is counted under, and the keys that a plain object does not
  inherit from \<^verbatim>\<open>Object.prototype\<close>. \<open>tally_of\<close> reads a stored count: 0 for a key that
  is not stored, nothing for a stored text.
\<close>

definition category_key :: "obj \<Rightarrow> error + string" where
  "category_key a = js_to_string (js_field a ''category'')"

definition ordinary_key :: "string \<Rightarrow> bool" where
  "ordinary_key k = (k \<noteq> ''__proto__'' \<and> map_of object_prototype_functions k = None)"

definition tally_of :: "(string \<times> tally) list \<Rightarrow> string \<Rightarrow> nat option" where
  "tally_of counts k =
     (case map_of counts k of None \<Rightarrow> Some 0 | Some (Tally n) \<Rightarrow> Some n | Some (Text s) \<Rightarrow> None)"

section \<open>Example inputs\<close>

text \<open>
  A small repository: three app files, one of them with a GitHub link, and the project
  \<^verbatim>\<open>sunshine\<close> with two categories, which excludes the app \<^verbatim>\<open>zeta\<close>. Its collation
  compares code units.
\<close>

definition code_unit_compare :: "string \<Rightarrow> string \<Rightarrow> int" where
  "code_unit_compare a b = (if a = b then 0 else if a \<le> b then - 1 else 1)"

definition qt_url :: string where
  "qt_url = ''https://github.com/moonlight-stream/moonlight-qt.git''"

definition qt_app :: jsval where
  "qt_app = JObj [(''id'', JStr ''qt''), (''name'', JStr ''Moonlight Qt''),
                  (''category'', JStr ''client''), (''featured'', JBool True),
                  (''links'', JObj [(''github'', JStr qt_url)])]"

definition zeta_app :: jsval where
  "zeta_app = JObj [(''id'', JStr ''zeta''), (''name'', JStr ''Zeta''),
                    (''category'', JStr ''tools'')]"

definition alpha_app :: jsval where
  "alpha_app = JObj [(''id'', JStr ''alpha''), (''name'', JStr ''Alpha''),
                     (''category'', JStr ''client'')]"

definition client_category :: jsval where
  "client_category = JObj [(''id'', JStr ''client''), (''name'', JStr ''Clients'')]"

definition tools_category :: jsval where
  "tools_category = JObj [(''id'', JStr ''tools''), (''name'', JStr ''Tools'')]"

definition sunshine_categories :: jsval where
  "sunshine_categories = JObj [(''categories'', JArr [client_category, tools_category])]"

definition sunshine_config :: project_config where
  "sunshine_config =
     \<lparr>cfg_id = JStr ''sunshine'', cfg_name = JStr ''Sunshine'', cfg_description = JUndef,
      include_only = None, exclude_apps = Some [JStr ''zeta''], featured_categories = Some []\<rparr>"

definition open_config :: project_config where
  "open_config =
     \<lparr>cfg_id = JStr ''sunshine'', cfg_name = JStr ''Sunshine'', cfg_description = JUndef,
      include_only = None, exclude_apps = None, featured_categories = None\<rparr>"

definition qt_response :: response where
  "qt_response =
     \<lparr>ok = True,
      json_body = Some (JObj [(''stargazers_count'', JNum ''10''), (''forks_count'', JNum ''2''),
                              (''license'', JObj [(''spdx_id'', JStr ''GPL-3.0'')])])\<rparr>"

definition qt_metadata :: jsval where
  "qt_metadata = JObj [(''stars'', JNum ''10''), (''openIssues'', JUndef), (''forks'', JNum ''2''),
                       (''lastUpdated'', JUndef), (''license'', JStr ''GPL-3.0'')]"

definition demo_env :: env where
  "demo_env =
     \<lparr>dist_exists = False, mkdir_ok = True,
      glob_apps = [''apps/zeta.json'', ''apps/qt.json'', ''apps/alpha.json''],
      glob_projects = [''projects/sunshine/project.json''],
      glob_categories = [''projects/sunshine/categories.json''],
      file_exists = (\<lambda>p. p = ''projects/sunshine/categories.json''),
      read_json = (\<lambda>p. if p = ''apps/zeta.json'' then Some zeta_app
                        else if p = ''apps/qt.json'' then Some qt_app
                        else if p = ''apps/alpha.json'' then Some alpha_app
                        else if p = ''projects/sunshine/categories.json''
                        then Some sunshine_categories else None),
      read_project = (\<lambda>p. if p = ''projects/sunshine/project.json''
                           then Some sunshine_config else None),
      write_ok = (\<lambda>p. True),
      parse_url = (\<lambda>s. if s = qt_url then Some \<lparr>hostname = ''github.com''\<rparr> else None),
      http_fetch = (\<lambda>u. if u = ''https://api.github.com/repos/moonlight-stream/moonlight-qt''
                         then Some qt_response else None),
      locale_compare = code_unit_compare,
      now = ''2026-01-01T00:00:00.000Z''\<rparr>"

text \<open>What the example run loads and builds.\<close>

definition qt_entry :: obj where
  "qt_entry = spread qt_app @ [(''github'', qt_metadata)]"

definition demo_apps :: "obj list" where
  "demo_apps = [spread zeta_app, qt_entry, spread alpha_app]"

definition qt_namespaced :: obj where
  "qt_namespaced = AList.update ''category'' (JStr ''sunshine:client'') qt_entry"

definition alpha_namespaced :: obj where
  "alpha_namespaced = AList.update ''category'' (JStr ''sunshine:client'') (spread alpha_app)"

definition demo_project_index :: index where
  "demo_project_index =
     \<lparr>idx_version = ''0.1.0'',
      idx_project = Some [(''id'', JStr ''sunshine''), (''name'', JStr ''Sunshine''),
                          (''description'', JStr [])],
      idx_updated = ''2026-01-01T00:00:00.000Z'',
      idx_apps = [qt_namespaced, alpha_namespaced],
      idx_categories =
        [[(''id'', JStr ''sunshine:client''), (''name'', JStr ''Clients''),
          (''originalId'', JStr ''client''), (''count'', JNum ''2'')],
         [(''id'', JStr ''sunshine:tools''), (''name'', JStr ''Tools''),
          (''originalId'', JStr ''tools''), (''count'', JNum ''0'')]]\<rparr>"

definition demo_master_index :: index where
  "demo_master_index =
     \<lparr>idx_version = ''0.1.0'',
      idx_project = None,
      idx_updated = ''2026-01-01T00:00:00.000Z'',
      idx_apps = [qt_entry, spread alpha_app, spread zeta_app],
      idx_categories =
        [[(''id'', JStr ''sunshine:client''), (''name'', JStr ''Clients''),
          (''originalId'', JStr ''client''), (''project'', JStr ''sunshine''),
          (''count'', JNum ''2'')],
         [(''id'', JStr ''sunshine:tools''), (''name'', JStr ''Tools''),
          (''originalId'', JStr ''tools''), (''project'', JStr ''sunshine''),
          (''count'', JNum ''1'')]]\<rparr>"

text \<open>The same repository with a category file that defines only \<^verbatim>\<open>client\<close>.\<close>

definition client_only_env :: env where
  "client_only_env = demo_env
     \<lparr>read_json := (\<lambda>p. if p = ''projects/sunshine/categories.json''
                         then Some (JObj [(''categories'', JArr [client_category])])
                         else read_json demo_env p)\<rparr>"

text \<open>An app whose link only contains the trusted host name, in its path.\<close>

definition evil_url :: string where
  "evil_url = ''https://evil.com/github.com/foo/bar''"

definition evil_app :: jsval where
  "evil_app = JObj [(''id'', JStr ''evil''), (''links'', JObj [(''github'', JStr evil_url)])]"

definition evil_env :: env where
  "evil_env = demo_env
     \<lparr>read_json := (\<lambda>p. if p = ''apps/evil.json'' then Some evil_app else None),
      parse_url := (\<lambda>s. if s = evil_url then Some \<lparr>hostname = ''evil.com''\<rparr> else None)\<rparr>"



text \<open>The example repository on a disk where \<^verbatim>\<open>dist/sunshine.json\<close> cannot be written.\<close>

definition unwritable_env :: env where
  "unwritable_env = demo_env\<lparr>write_ok := (\<lambda>p. p \<noteq> ''dist/sunshine.json'')\<rparr>"

text \<open>
  The example repository with a second project \<^verbatim>\<open>beta\<close>, whose \<^verbatim>\<open>categories.json\<close>
  exists and is not JSON.
\<close>

definition beta_env :: env where
  "beta_env = demo_env
     \<lparr>glob_projects := [''projects/sunshine/project.json'', ''projects/beta/project.json''],
      glob_categories := [''projects/sunshine/categories.json'', ''projects/beta/categories.json''],
      file_exists := (\<lambda>p. p = ''projects/sunshine/categories.json''
                           \<or> p = ''projects/beta/categories.json''),
      read_project := (\<lambda>p. if p = ''projects/sunshine/project.json'' then Some sunshine_config
                            else if p = ''projects/beta/project.json'' then Some open_config
                            else None)\<rparr>"

text \<open>
  Two apps named \<^verbatim>\<open>A1\<close> and \<^verbatim>\<open>A_\<close>, under a collation that puts the underscore before
  the digits, as the ICU collation behind Node's \<^verbatim>\<open>localeCompare\<close> does
  (\<^verbatim>\<open>'A_'.localeCompare('A1')\<close> is \<^verbatim>\<open>-1\<close>); other strings are compared by code units.
\<close>

definition punctuation_first :: "string \<Rightarrow> string \<Rightarrow> int" where
  "punctuation_first a b =
     (if a = ''A_'' \<and> b = ''A1'' then - 1
      else if a = ''A1'' \<and> b = ''A_'' then 1
      else code_unit_compare a b)"

definition underscore_apps :: "obj list" where
  "underscore_apps =
     [[(''id'', JStr ''a1''), (''name'', JStr ''A1''), (''category'', JStr ''client'')],
      [(''id'', JStr ''a-underscore''), (''name'', JStr ''A_''), (''category'', JStr ''client'')]]"

definition collation_env :: env where
  "collation_env = demo_env\<lparr>locale_compare := punctuation_first\<rparr>"

text \<open>A project \<^verbatim>\<open>p\<close> with a category named \<^verbatim>\<open>constructor\<close>, and one app in it.\<close>

definition constructor_apps :: "obj list" where
  "constructor_apps =
     [[(''id'', JStr ''maker''), (''name'', JStr ''Maker''), (''category'', JStr ''constructor'')]]"

definition constructor_env :: env where
  "constructor_env = demo_env
     \<lparr>glob_categories := [''projects/p/categories.json''],
      read_json := (\<lambda>p. if p = ''projects/p/categories.json''
                         then Some (JObj [(''categories'',
                                JArr [JObj [(''id'', JStr ''constructor''),
                                            (''name'', JStr ''Constructors'')]])])
                         else None)\<rparr>"

text \<open>The example project with a configuration whose \<^verbatim>\<open>id\<close> is not its directory name.\<close>

definition renamed_env :: env where
  "renamed_env = demo_env
     \<lparr>read_project := (\<lambda>p. if p = ''projects/sunshine/project.json''
                            then Some (sunshine_config\<lparr>cfg_id := JStr ''sunshine-host''\<rparr>)
                            else None)\<rparr>"

text \<open>
  The example repository where \<^verbatim>\<open>dist\<close> cannot be created, and where
  \<^verbatim>\<open>dist/index.json\<close> cannot be written.
\<close>

definition no_dist_env :: env where
  "no_dist_env = demo_env\<lparr>mkdir_ok := False\<rparr>"

definition master_unwritable_env :: env where
  "master_unwritable_env = demo_env\<lparr>write_ok := (\<lambda>p. p \<noteq> ''dist/index.json'')\<rparr>"



text \<open>What the project with the renamed configuration builds.\<close>

definition renamed_index :: index where
  "renamed_index = demo_project_index
     \<lparr>idx_project := Some [(''id'', JStr ''sunshine-host''), (''name'', JStr ''Sunshine''),
                           (''description'', JStr [])]\<rparr>"

text \<open>
  A record with a link to another host whose \<^verbatim>\<open>id\<close> is an object with a key
  \<^verbatim>\<open>toString\<close>, which cannot be converted to a string.
\<close>

definition odd_id_app :: jsval where
  "odd_id_app = JObj [(''id'', JObj [(''toString'', JNum ''0'')]),
                      (''links'', JObj [(''github'', JStr evil_url)])]"

definition odd_id_env :: env where
  "odd_id_env = evil_env
     \<lparr>read_json := (\<lambda>p. if p = ''apps/odd.json'' then Some odd_id_app else None)\<rparr>"

text \<open>A configuration that uses the three filters.\<close>

definition strict_config :: project_config where
  "strict_config =
     \<lparr>cfg_id = JStr ''sunshine'', cfg_name = JStr ''Sunshine'', cfg_description = JUndef,
      include_only = Some [JStr ''qt'', JStr ''zeta''],
      exclude_apps = Some [JStr ''alpha''],
      featured_categories = Some [JStr ''client'']\<rparr>"

text \<open>
  The example repository with a category file whose two definitions have the ids
  \<^verbatim>\<open>null\<close> and \<^verbatim>\<open>"null"\<close>.
\<close>

definition null_id_env :: env where
  "null_id_env = demo_env
     \<lparr>read_json := (\<lambda>p. if p = ''projects/sunshine/categories.json''
                         then Some (JObj [(''categories'',
                                JArr [JObj [(''id'', JNull), (''name'', JStr ''Nothing'')],
                                      JObj [(''id'', JStr ''null''), (''name'', JStr ''Text'')]])])
                         else read_json demo_env p)\<rparr>"

section \<open>Properties of the building blocks\<close>

subsection \<open>Objects\<close>

lemma js_field_update_same [simp]: "js_field (AList.update k v kvs) k = v"
  by (simp add: js_field_def update_conv')

lemma js_field_update_other [simp]:
  "k \<noteq> k' \<Longrightarrow> js_field (AList.update k' v kvs) k = js_field kvs k"
  by (simp add: js_field_def update_conv')

lemma strip_prefix_append: "strip_prefix p (p @ s) = Some s"
  by (simp add: strip_prefix_def)

lemma namespaced_byI:
  assumes "js_to_string (js_field c ''originalId'') = Inr k"
    and "js_field c ''id'' = JStr (namespaced pid k)"
  shows "namespaced_by pid c"
  using assms strip_prefix_append [of "pid @ '':''" k]
  by (simp add: namespaced_by_def namespaced_def)

text \<open>For a category whose original id is a string, the id gives that string back.\<close>

lemma namespaced_by_exact:
  assumes "namespaced_by pid c" and "string_id c"
  shows "exactly_recoverable pid c"
proof -
  from assms(2) obtain s where s: "js_field c ''originalId'' = JStr s"
    by (auto simp: string_id_def split: jsval.splits)
  with assms(1) show ?thesis
    by (auto simp: namespaced_by_def exactly_recoverable_def split: jsval.splits)
qed

lemma namespace_app_Inr:
  assumes "namespace_app pid a = Inr b"
  shows "\<exists>k. js_to_string (js_field a ''category'') = Inr k \<and>
             b = AList.update ''category'' (JStr (namespaced pid k)) a"
  using assms by (auto simp: namespace_app_def split: sum.splits)

lemma namespace_app_category:
  assumes "namespace_app pid a = Inr b"
  shows "\<exists>k. js_to_string (js_field a ''category'') = Inr k \<and>
             js_field b ''category'' = JStr (namespaced pid k)"
  using namespace_app_Inr [OF assms] by auto

lemma has_name_namespace_app: "namespace_app pid a = Inr b \<Longrightarrow> has_name b = has_name a"
  by (auto simp: has_name_def dest!: namespace_app_Inr)

subsection \<open>Counting\<close>

lemma decimal_0: "decimal 0 = ''0''"
  by code_simp

lemma bump_tally:
  assumes "ordinary_key k" and "tally_of counts k = Some n" and "map_of counts k \<noteq> Some (Tally 0)"
  shows "tally_of (bump counts k') k = Some (if k' = k then n + 1 else n) \<and>
         map_of (bump counts k') k \<noteq> Some (Tally 0)"
proof (cases "k' = k")
  case True
  with assms show ?thesis
    by (auto simp: bump_def tally_of_def ordinary_key_def update_conv'
          split: option.splits tally.splits)
next
  case False
  then have "map_of (bump counts k') k = map_of counts k"
    by (auto simp: bump_def update_conv' split: option.splits tally.splits)
  with False assms show ?thesis
    by (simp add: tally_of_def)
qed

lemma count_loop_tally:
  assumes "ordinary_key k"
    and "count_loop counts as = Inr counts'"
    and "tally_of counts k = Some n" and "map_of counts k \<noteq> Some (Tally 0)"
  shows "tally_of counts' k = Some (n + length (filter (\<lambda>a. category_key a = Inr k) as)) \<and>
         map_of counts' k \<noteq> Some (Tally 0)"
  using assms(2,3,4)
proof (induction as arbitrary: counts n)
  case Nil
  then show ?case by simp
next
  case (Cons a as)
  from Cons.prems(1) obtain k' where k': "category_key a = Inr k'"
    and loop: "count_loop (bump counts k') as = Inr counts'"
    by (auto simp: count_step_def category_key_def split: sum.splits)
  from bump_tally [OF assms(1) Cons.prems(2,3), of k']
  have step: "tally_of (bump counts k') k = Some (if k' = k then n + 1 else n)"
    and nz: "map_of (bump counts k') k \<noteq> Some (Tally 0)"
    by simp_all
  from Cons.IH [OF loop step nz] k' show ?case
    by (simp split: if_splits)
qed

text \<open>
  For a key that \<^verbatim>\<open>Object.prototype\<close> does not have, \<^verbatim>\<open>categoryCounts[key] || 0\<close> is the
  number of apps counted under that key.
\<close>

lemma count_of_ordinary:
  assumes "ordinary_key k" and "count_apps as = Inr counts"
  shows "count_of counts k
           = JNum (decimal (length (filter (\<lambda>a. category_key a = Inr k) as)))"
proof -
  have "tally_of [] k = Some 0" and "map_of ([] :: (string \<times> tally) list) k \<noteq> Some (Tally 0)"
    by (simp_all add: tally_of_def)
  from count_loop_tally [OF assms(1) assms(2) [unfolded count_apps_def] this]
  have t: "tally_of counts k = Some (length (filter (\<lambda>a. category_key a = Inr k) as))"
    and nz: "map_of counts k \<noteq> Some (Tally 0)"
    by simp_all
  show ?thesis
  proof (cases "map_of counts k")
    case None
    with t assms(1) show ?thesis
      by (simp add: tally_of_def count_of_def ordinary_key_def decimal_0)
  next
    case (Some v)
    with t assms(1) show ?thesis
      by (cases v) (simp_all add: tally_of_def count_of_def)
  qed
qed

subsection \<open>The filters\<close>

lemma subseq_include: "subseq (apply_include_only cfg xs) xs"
  by (simp add: apply_include_only_def split: option.splits)

lemma subseq_exclude: "subseq (apply_exclude_apps cfg xs) xs"
  by (simp add: apply_exclude_apps_def split: option.splits)

lemma subseq_featured: "subseq (apply_featured_categories cfg xs) xs"
  by (simp add: apply_featured_categories_def split: option.splits)

lemma filter_apps_subseq: "subseq (filter_apps cfg allApps) allApps"
proof -
  have "subseq (apply_exclude_apps cfg (apply_include_only cfg allApps)) allApps"
    using subseq_exclude subseq_include by (rule subseq_order.order_trans)
  with subseq_featured show ?thesis
    unfolding filter_apps_def by (rule subseq_order.order_trans)
qed

lemma subseq_set: "subseq xs ys \<Longrightarrow> set xs \<subseteq> set ys"
  by (auto elim: list_emb_set)

lemma filter_apps_names: "list_all has_name allApps \<Longrightarrow> list_all has_name (filter_apps cfg allApps)"
  using subseq_set [OF filter_apps_subseq, of cfg allApps] by (auto simp: list_all_iff)

subsection \<open>Mapping with exceptions\<close>

lemma map_result_all:
  assumes "map_result f xs = Inr ys" and "\<And>x y. f x = Inr y \<Longrightarrow> P y"
  shows "list_all P ys"
  using assms(1)
proof (induction xs arbitrary: ys)
  case Nil
  then show ?case by simp
next
  case (Cons x xs)
  then obtain y ys' where "f x = Inr y" "map_result f xs = Inr ys'" "ys = y # ys'"
    by (auto split: sum.splits)
  with Cons.IH assms(2) show ?case by simp
qed

lemma map_result_covers:
  assumes "map_result f xs = Inr ys" and "x \<in> set xs"
  shows "\<exists>y \<in> set ys. f x = Inr y"
  using assms
proof (induction xs arbitrary: ys)
  case Nil
  then show ?case by simp
next
  case (Cons z zs)
  then obtain y ys' where *: "f z = Inr y" "map_result f zs = Inr ys'" "ys = y # ys'"
    by (auto split: sum.splits)
  show ?case
  proof (cases "x = z")
    case True
    with * show ?thesis by simp
  next
    case False
    with Cons.prems have "x \<in> set zs" by simp
    with Cons.IH * show ?thesis by auto
  qed
qed

lemma map_result_source:
  assumes "map_result f xs = Inr ys" and "y \<in> set ys"
  shows "\<exists>x \<in> set xs. f x = Inr y"
  using assms
proof (induction xs arbitrary: ys)
  case Nil
  then show ?case by simp
next
  case (Cons z zs)
  then obtain y' ys' where *: "f z = Inr y'" "map_result f zs = Inr ys'" "ys = y' # ys'"
    by (auto split: sum.splits)
  show ?case
  proof (cases "y = y'")
    case True
    with * show ?thesis by simp
  next
    case False
    with Cons.prems * have "y \<in> set ys'" by simp
    with Cons.IH * show ?thesis by auto
  qed
qed

lemma map_result_length: "map_result f xs = Inr ys \<Longrightarrow> length ys = length xs"
  by (induction xs arbitrary: ys) (auto split: sum.splits)

lemma map_result_total:
  assumes "map_result f xs = Inr ys" and "\<And>x y. f x = Inr y \<Longrightarrow> y = g x"
  shows "ys = map g xs"
  using assms(1)
proof (induction xs arbitrary: ys)
  case Nil
  then show ?case by simp
next
  case (Cons x xs)
  then obtain y ys' where "f x = Inr y" "map_result f xs = Inr ys'" "ys = y # ys'"
    by (auto split: sum.splits)
  with Cons.IH assms(2) show ?case by simp
qed

lemma map_result_map: "map_result f xs = Inr ys \<Longrightarrow> map f xs = map Inr ys"
  by (induction xs arbitrary: ys) (auto split: sum.splits)

lemma namespace_category_id:
  assumes "namespace_category pid counts cat = Inr c"
  shows "js_get cat ''id'' = Inr (js_field c ''originalId'') \<and>
         (\<exists>k. js_to_string (js_field c ''originalId'') = Inr k \<and>
              js_field c ''id'' = JStr (namespaced pid k))"
proof -
  from assms obtain cid k where cid: "js_get cat ''id'' = Inr cid"
    and k: "js_to_string cid = Inr k"
    and c: "c = AList.update ''count'' (count_of counts k)
                (AList.update ''originalId'' cid
                  (AList.update ''id'' (JStr (namespaced pid k)) (spread cat)))"
    by (auto simp: namespace_category_def split: sum.splits)
  then show ?thesis by simp
qed

lemma namespace_category_namespaced_by:
  "namespace_category pid counts cat = Inr c \<Longrightarrow> namespaced_by pid c"
  using namespace_category_id [of pid counts cat c] by (auto intro: namespaced_byI)

subsection \<open>Sorting\<close>

lemma insert_sorted_mset:
  "insert_sorted cmp x ys = Inr zs \<Longrightarrow> mset zs = add_mset x (mset ys)"
  by (induction ys arbitrary: zs) (auto split: sum.splits if_splits)

lemma toSorted_mset: "toSorted cmp xs = Inr ys \<Longrightarrow> mset ys = mset xs"
  by (induction xs arbitrary: ys) (auto split: sum.splits dest: insert_sorted_mset)

lemma toSorted_set: "toSorted cmp xs = Inr ys \<Longrightarrow> set ys = set xs"
  by (rule mset_eq_setD) (rule toSorted_mset)

lemma compare_apps_decides:
  assumes "total_preorder (locale_compare e)" and "has_name a" and "has_name b"
  shows "\<exists>c. compare_apps e a b = Inr c \<and> (c \<le> 0 \<longrightarrow> app_le e a b) \<and> (0 < c \<longrightarrow> app_le e b a)"
proof -
  from assms(2) obtain s where s: "js_field a ''name'' = JStr s"
    by (auto simp: has_name_def split: jsval.splits)
  from assms(3) obtain t where t: "js_field b ''name'' = JStr t"
    by (auto simp: has_name_def split: jsval.splits)
  have tot: "locale_compare e x y \<le> 0 \<or> locale_compare e y x \<le> 0" for x y
    using assms(1) by (simp add: total_preorder_def)
  show ?thesis
    using s t tot [of s t]
    by (auto simp: compare_apps_def app_le_def name_of_def)
qed

lemma app_le_trans:
  assumes "total_preorder (locale_compare e)" and "app_le e a b" and "app_le e b c"
  shows "app_le e a c"
proof -
  have tr: "locale_compare e x y \<le> 0 \<Longrightarrow> locale_compare e y z \<le> 0 \<Longrightarrow> locale_compare e x z \<le> 0"
    for x y z
    using assms(1) by (simp add: total_preorder_def)
  show ?thesis
    using assms(2,3) tr [of "name_of a" "name_of b" "name_of c"]
    by (auto simp: app_le_def)
qed

lemma insert_sorted_sorted:
  assumes dec: "\<And>y. y \<in> set ys \<Longrightarrow>
            \<exists>c. cmp x y = Inr c \<and> (c \<le> 0 \<longrightarrow> R x y) \<and> (0 < c \<longrightarrow> R y x)"
    and tr: "\<And>a b c. R a b \<Longrightarrow> R b c \<Longrightarrow> R a c"
    and srt: "sorted_wrt R ys"
  shows "\<exists>zs. insert_sorted cmp x ys = Inr zs \<and> sorted_wrt R zs \<and> set zs = insert x (set ys)"
  using dec srt
proof (induction ys)
  case Nil
  then show ?case by simp
next
  case (Cons y ys)
  from Cons.prems(1) [of y] obtain c where
    c: "cmp x y = Inr c" "c \<le> 0 \<longrightarrow> R x y" "0 < c \<longrightarrow> R y x"
    by auto
  show ?case
  proof (cases "c \<le> 0")
    case True
    with c have "R x y" by simp
    with Cons.prems(2) tr have "\<forall>z \<in> set (y # ys). R x z"
      by auto
    with Cons.prems(2) c True show ?thesis by simp
  next
    case False
    with c have yx: "R y x" by simp
    from Cons.prems have "\<exists>zs. insert_sorted cmp x ys = Inr zs \<and> sorted_wrt R zs \<and>
        set zs = insert x (set ys)"
      by (intro Cons.IH) simp_all
    then obtain zs where zs: "insert_sorted cmp x ys = Inr zs" "sorted_wrt R zs"
        "set zs = insert x (set ys)"
      by auto
    with yx Cons.prems(2) have "sorted_wrt R (y # zs)" by auto
    with c False zs show ?thesis by auto
  qed
qed

lemma toSorted_sorted:
  assumes dec: "\<And>x y. x \<in> set xs \<Longrightarrow> y \<in> set xs \<Longrightarrow>
            \<exists>c. cmp x y = Inr c \<and> (c \<le> 0 \<longrightarrow> R x y) \<and> (0 < c \<longrightarrow> R y x)"
    and tr: "\<And>a b c. R a b \<Longrightarrow> R b c \<Longrightarrow> R a c"
  shows "\<exists>ys. toSorted cmp xs = Inr ys \<and> sorted_wrt R ys \<and> set ys = set xs"
  using dec
proof (induction xs)
  case Nil
  then show ?case by simp
next
  case (Cons x xs)
  have "\<exists>ys. toSorted cmp xs = Inr ys \<and> sorted_wrt R ys \<and> set ys = set xs"
    by (rule Cons.IH) (simp add: Cons.prems)
  then obtain ys where ys: "toSorted cmp xs = Inr ys" "sorted_wrt R ys" "set ys = set xs"
    by auto
  have "\<exists>zs. insert_sorted cmp x ys = Inr zs \<and> sorted_wrt R zs \<and> set zs = insert x (set ys)"
  proof (rule insert_sorted_sorted)
    show "\<exists>c. cmp x y = Inr c \<and> (c \<le> 0 \<longrightarrow> R x y) \<and> (0 < c \<longrightarrow> R y x)" if "y \<in> set ys" for y
      using that ys(3) by (intro Cons.prems) simp_all
    show "R a c" if "R a b" "R b c" for a b c
      using that by (rule tr)
    show "sorted_wrt R ys" by (rule ys(2))
  qed
  with ys show ?case by auto
qed

lemma apps_sorted:
  assumes "total_preorder (locale_compare e)" and "list_all has_name xs"
  shows "\<exists>ys. toSorted (compare_apps e) xs = Inr ys \<and> successively (app_le e) ys"
proof -
  have "\<exists>ys. toSorted (compare_apps e) xs = Inr ys \<and> sorted_wrt (app_le e) ys \<and> set ys = set xs"
  proof (rule toSorted_sorted)
    show "\<exists>c. compare_apps e x y = Inr c \<and> (c \<le> 0 \<longrightarrow> app_le e x y) \<and> (0 < c \<longrightarrow> app_le e y x)"
      if "x \<in> set xs" "y \<in> set xs" for x y
      using assms that by (intro compare_apps_decides) (simp_all add: list_all_iff)
    show "app_le e a c" if "app_le e a b" "app_le e b c" for a b c
      using assms(1) that by (rule app_le_trans)
  qed
  then show ?thesis
    using successively_if_sorted_wrt by blast
qed

lemma code_unit_compare_total: "total_preorder code_unit_compare"
  by (auto simp: total_preorder_def code_unit_compare_def)

subsection \<open>The builders\<close>

lemma buildProjectIndex_Some:
  assumes "snd (buildProjectIndex e pid cfg allApps) = Inr (Some idx)"
  shows "\<exists>data counts cats namespacedApps.
    read_json e (categories_path pid) = Some data \<and>
    count_apps (filter_apps cfg allApps) = Inr counts \<and>
    category_list data = Inr cats \<and>
    map_result (namespace_category pid counts) cats = Inr (idx_categories idx) \<and>
    map_result (namespace_app pid) (filter_apps cfg allApps) = Inr namespacedApps \<and>
    toSorted (compare_apps e) namespacedApps = Inr (idx_apps idx) \<and>
    idx_project idx = Some (project_header cfg)"
proof (cases "file_exists e (categories_path pid)")
  case False
  with assms show ?thesis by (simp add: buildProjectIndex_def)
next
  case ex: True
  show ?thesis
  proof (cases "read_json e (categories_path pid)")
    case None
    with assms ex show ?thesis by (simp add: buildProjectIndex_def)
  next
    case (Some data)
    show ?thesis
    proof (cases "count_apps (filter_apps cfg allApps)")
      case (Inl err)
      with assms ex Some show ?thesis by (simp add: buildProjectIndex_def)
    next
      case cn: (Inr counts)
      show ?thesis
      proof (cases "category_list data")
        case (Inl err)
        with assms ex Some cn show ?thesis by (simp add: buildProjectIndex_def)
      next
        case cl: (Inr cats)
        show ?thesis
        proof (cases "map_result (namespace_category pid counts) cats")
          case (Inl err)
          with assms ex Some cn cl show ?thesis by (simp add: buildProjectIndex_def)
        next
          case mr: (Inr categories)
          show ?thesis
          proof (cases "map_result (namespace_app pid) (filter_apps cfg allApps)")
            case (Inl err)
            with assms ex Some cn cl mr show ?thesis by (simp add: buildProjectIndex_def)
          next
            case na: (Inr namespacedApps)
            show ?thesis
            proof (cases "toSorted (compare_apps e) namespacedApps")
              case (Inl err)
              with assms ex Some cn cl mr na show ?thesis by (simp add: buildProjectIndex_def)
            next
              case (Inr sortedApps)
              with assms ex Some cn cl mr na show ?thesis
                by (auto simp add: buildProjectIndex_def)
            qed
          qed
        qed
      qed
    qed
  qed
qed

text \<open>The apps of a project index are the filtered apps, each namespaced, in some order.\<close>

lemma buildProjectIndex_apps:
  assumes "snd (buildProjectIndex e pid cfg allApps) = Inr (Some idx)"
  shows "\<exists>namespacedApps.
    map_result (namespace_app pid) (filter_apps cfg allApps) = Inr namespacedApps \<and>
    mset (idx_apps idx) = mset namespacedApps"
proof -
  from buildProjectIndex_Some [OF assms] obtain namespacedApps where
    "map_result (namespace_app pid) (filter_apps cfg allApps) = Inr namespacedApps"
    and "toSorted (compare_apps e) namespacedApps = Inr (idx_apps idx)"
    by (elim exE conjE)
  then show ?thesis
    by (auto dest: toSorted_mset)
qed

lemma build_project_Some:
  assumes "snd (build_project e allApps projectFile) = Some (path, idx)"
    and "read_project e projectFile = Some cfg"
  shows "snd (buildProjectIndex e (basename (dirname projectFile)) cfg allApps) = Inr (Some idx) \<and>
         path = output_path (basename (dirname projectFile)) \<and>
         write_ok e (output_path (basename (dirname projectFile)))"
proof (cases "js_to_string (cfg_name cfg)")
  case (Inl err)
  with assms show ?thesis by (simp add: build_project_def)
next
  case name: (Inr label)
  show ?thesis
  proof (cases "snd (buildProjectIndex e (basename (dirname projectFile)) cfg allApps)")
    case (Inl err)
    with assms name show ?thesis by (simp add: build_project_def)
  next
    case (Inr r)
    show ?thesis
    proof (cases r)
      case None
      with Inr assms name show ?thesis by (simp add: build_project_def)
    next
      case (Some idx')
      with Inr assms name show ?thesis
        by (simp add: build_project_def Let_def split: if_splits)
    qed
  qed
qed

lemma build_project_unwritable:
  "\<not> write_ok e (output_path (basename (dirname f))) \<Longrightarrow> snd (build_project e allApps f) = None"
  by (simp add: build_project_def Let_def split: option.splits sum.splits)

text \<open>A project index that is built and cannot be written is logged as a failed build.\<close>

lemma build_project_unwritable_logged:
  assumes "read_project e f = Some cfg"
    and "js_to_string (cfg_name cfg) = Inr label"
    and "snd (buildProjectIndex e (basename (dirname f)) cfg allApps) = Inr (Some idx)"
    and "\<not> write_ok e (output_path (basename (dirname f)))"
  shows "build_project e allApps f
           = (fst (buildProjectIndex e (basename (dirname f)) cfg allApps) @ [Error_building f],
              None)"
  using assms by (simp add: build_project_def Let_def)

lemma master_category_id:
  "js_field (master_category pid cat cid k) ''id'' = JStr (namespaced pid k) \<and>
   js_field (master_category pid cat cid k) ''originalId'' = cid \<and>
   js_field (master_category pid cat cid k) ''project'' = JStr pid"
  by (simp add: master_category_def)

lemma add_categories_inv:
  assumes "add_categories pid cats acc = Inr acc'"
    and "list_all (\<lambda>c. list_ex (\<lambda>p. from_project p c) ps) (map snd acc)"
    and "pid \<in> set ps"
  shows "list_all (\<lambda>c. list_ex (\<lambda>p. from_project p c) ps) (map snd acc')"
  using assms(1,2)
proof (induction cats arbitrary: acc)
  case Nil
  then show ?case by simp
next
  case (Cons cat cats)
  from Cons.prems(1) obtain cid k where cid: "js_get cat ''id'' = Inr cid"
    and k: "js_to_string cid = Inr k"
    by (auto split: sum.splits)
  let ?acc = "if map_of acc (namespaced pid k) = None
             then acc @ [(namespaced pid k, master_category pid cat cid k)] else acc"
  have "from_project pid (master_category pid cat cid k)"
    using master_category_id [of pid cat cid k] k
    by (simp add: from_project_def namespaced_byI)
  with assms(3) have "list_ex (\<lambda>p. from_project p (master_category pid cat cid k)) ps"
    by (auto simp: list_ex_iff)
  with Cons.prems(2) have "list_all (\<lambda>c. list_ex (\<lambda>p. from_project p c) ps) (map snd ?acc)"
    by simp
  moreover from Cons.prems(1) cid k have "add_categories pid cats ?acc = Inr acc'"
    by simp
  ultimately show ?case by (rule Cons.IH [rotated])
qed

lemma collect_categories_inv:
  assumes "collect_categories e files acc = Inr acc'"
    and "list_all (\<lambda>c. list_ex (\<lambda>p. from_project p c) ps) (map snd acc)"
    and "set (map (\<lambda>f. basename (dirname f)) files) \<subseteq> set ps"
  shows "list_all (\<lambda>c. list_ex (\<lambda>p. from_project p c) ps) (map snd acc')"
  using assms
proof (induction files arbitrary: acc)
  case Nil
  then show ?case by simp
next
  case (Cons f files)
  from Cons.prems(1) obtain data cats acc1 where
    *: "read_json e f = Some data" "category_list data = Inr cats"
       "add_categories (basename (dirname f)) cats acc = Inr acc1"
       "collect_categories e files acc1 = Inr acc'"
    by (auto split: option.splits sum.splits)
  from Cons.prems(3) have "basename (dirname f) \<in> set ps" by simp
  with *(3) Cons.prems(2) have "list_all (\<lambda>c. list_ex (\<lambda>p. from_project p c) ps) (map snd acc1)"
    by (rule add_categories_inv)
  with *(4) Cons.prems(3) show ?case
    by (intro Cons.IH) simp_all
qed

lemma build_master_Inr:
  assumes "build_master e allApps = Inr m"
  shows "\<exists>categoryData counts.
           collect_categories e (glob_categories e) [] = Inr categoryData \<and>
           count_apps allApps = Inr counts \<and>
           map_result (master_count counts) (map snd categoryData) = Inr (idx_categories m) \<and>
           toSorted (compare_apps e) allApps = Inr (idx_apps m)"
  using assms by (auto simp: build_master_def split: sum.splits)

lemma master_count_Inr:
  assumes "master_count counts c = Inr c'"
  shows "\<exists>k. js_to_string (js_field c ''originalId'') = Inr k \<and>
             c' = AList.update ''count'' (count_of counts k) c"
  using assms by (auto simp: master_count_def split: sum.splits)

lemma from_project_master_count:
  assumes "master_count counts c = Inr c'"
  shows "from_project p c' = from_project p c"
  using master_count_Inr [OF assms]
  by (auto simp: from_project_def namespaced_by_def cong: jsval.case_cong sum.case_cong)

lemma from_project_exact:
  assumes "list_all (\<lambda>c. list_ex (\<lambda>p. from_project p c) ps) cs"
  shows "list_all (\<lambda>c. list_ex (\<lambda>p. from_project p c \<and>
                                    (string_id c \<longrightarrow> exactly_recoverable p c)) ps) cs"
proof -
  have "list_ex (\<lambda>p. from_project p c \<and> (string_id c \<longrightarrow> exactly_recoverable p c)) ps"
    if "list_ex (\<lambda>p. from_project p c) ps" for c
  proof -
    from that obtain p where p: "p \<in> set ps" "from_project p c"
      unfolding list_ex_iff by (elim bexE)
    from p(2) have "string_id c \<longrightarrow> exactly_recoverable p c"
      by (simp add: from_project_def namespaced_by_exact)
    with p(2) have "from_project p c \<and> (string_id c \<longrightarrow> exactly_recoverable p c)"
      by simp
    with p(1) show ?thesis
      unfolding list_ex_iff by (rule rev_bexI)
  qed
  with assms show ?thesis
    unfolding list_all_iff by simp
qed

lemma from_project_counts:
  assumes "map_result (master_count counts) cs = Inr cs'"
    and "list_all (\<lambda>c. list_ex (\<lambda>p. from_project p c) ps) cs"
  shows "list_all (\<lambda>c. list_ex (\<lambda>p. from_project p c) ps) cs'"
  using assms
proof (induction cs arbitrary: cs')
  case Nil
  then show ?case by simp
next
  case (Cons c cs)
  from Cons.prems(1) obtain c' cs'' where *: "master_count counts c = Inr c'"
    "map_result (master_count counts) cs = Inr cs''" "cs' = c' # cs''"
    by (auto split: sum.splits)
  with Cons.IH Cons.prems(2) show ?case
    by (simp add: from_project_master_count [OF *(1)])
qed

text \<open>
  The counts of the master index are right for every category whose original id is not the
  name of a property of \<^verbatim>\<open>Object.prototype\<close>.
\<close>

lemma master_counts_ordinary:
  assumes "build_master e allApps = Inr m"
  shows "list_all (\<lambda>c. case js_to_string (js_field c ''originalId'') of
                     Inr k \<Rightarrow>
                       ordinary_key k \<longrightarrow>
                       js_field c ''count'' =
                         JNum (decimal (length (filter (\<lambda>a. category_key a = Inr k) allApps)))
                   | Inl err \<Rightarrow> False)
           (idx_categories m)"
proof -
  from build_master_Inr [OF assms] obtain categoryData counts where
    "collect_categories e (glob_categories e) [] = Inr categoryData"
    and cn: "count_apps allApps = Inr counts"
    and cats: "map_result (master_count counts) (map snd categoryData) = Inr (idx_categories m)"
    and "toSorted (compare_apps e) allApps = Inr (idx_apps m)"
    by (elim exE conjE)
  from cats show ?thesis
  proof (rule map_result_all)
    fix c c'
    assume "master_count counts c = Inr c'"
    from master_count_Inr [OF this] obtain k where
      k: "js_to_string (js_field c ''originalId'') = Inr k"
      and c': "c' = AList.update ''count'' (count_of counts k) c"
      by auto
    then show "case js_to_string (js_field c' ''originalId'') of
                 Inr k \<Rightarrow>
                   ordinary_key k \<longrightarrow>
                   js_field c' ''count'' =
                     JNum (decimal (length (filter (\<lambda>a. category_key a = Inr k) allApps)))
               | Inl err \<Rightarrow> False"
      using count_of_ordinary [OF _ cn] by simp
  qed
qed

subsection \<open>Files that do not parse\<close>

lemma load_files_append:
  "load_files e (fs @ gs) =
     (fst (load_files e fs) @ fst (load_files e gs), snd (load_files e fs) @ snd (load_files e gs))"
  by (induction fs) simp_all

text \<open>An app file that cannot be read or parsed is logged, and the other files are loaded.\<close>

lemma unparsable_app_skipped:
  assumes "read_json e f = None"
  shows "load_files e (fs @ f # gs) =
           (fst (load_files e fs) @ Error_processing f # fst (load_files e gs),
            snd (load_files e fs) @ snd (load_files e gs))"
  using assms by (simp add: load_files_append load_app_def)

lemma build_projects_append:
  "build_projects e allApps (fs @ gs) =
     (fst (build_projects e allApps fs) @ fst (build_projects e allApps gs),
      snd (build_projects e allApps fs) @ snd (build_projects e allApps gs))"
  by (induction fs) simp_all

text \<open>
  A project file that cannot be read or parsed is logged, and the other projects are built.
\<close>

lemma unparsable_project_skipped:
  assumes "read_project e f = None"
  shows "build_projects e allApps (fs @ f # gs) =
           (fst (build_projects e allApps fs) @ Error_building f # fst (build_projects e allApps gs),
            snd (build_projects e allApps fs) @ snd (build_projects e allApps gs))"
  using assms by (simp add: build_projects_append build_project_def)

subsection \<open>What does not depend on the success of writes\<close>

lemma fetchGitHubMetadata_write_ok [simp]:
  "fetchGitHubMetadata (e\<lparr>write_ok := w\<rparr>) g = fetchGitHubMetadata e g"
  by (simp add: fetchGitHubMetadata_def split: option.splits prod.splits sum.splits)

lemma load_app_write_ok [simp]: "load_app (e\<lparr>write_ok := w\<rparr>) f = load_app e f"
  by (simp add: load_app_def enrich_def split: option.splits sum.splits)

lemma load_files_write_ok [simp]: "load_files (e\<lparr>write_ok := w\<rparr>) fs = load_files e fs"
  by (induction fs) simp_all

lemma loadAllApps_write_ok [simp]: "loadAllApps (e\<lparr>write_ok := w\<rparr>) = loadAllApps e"
  by (simp add: loadAllApps_def)

lemma compare_apps_write_ok [simp]: "compare_apps (e\<lparr>write_ok := w\<rparr>) = compare_apps e"
  by (intro ext) (simp add: compare_apps_def split: jsval.splits sum.splits)

lemma collect_categories_write_ok [simp]:
  "collect_categories (e\<lparr>write_ok := w\<rparr>) fs acc = collect_categories e fs acc"
  by (induction fs arbitrary: acc) (simp_all split: option.splits sum.splits)

lemma build_master_write_ok [simp]: "build_master (e\<lparr>write_ok := w\<rparr>) as = build_master e as"
  by (simp add: build_master_def split: sum.splits)

subsection \<open>The example run\<close>

lemma demo_loadAllApps: "loadAllApps demo_env = ([], demo_apps)"
  by code_simp

lemma demo_buildProjectIndex:
  "buildProjectIndex demo_env ''sunshine'' sunshine_config demo_apps
     = ([], Inr (Some demo_project_index))"
  by code_simp

lemma demo_build_master: "build_master demo_env demo_apps = Inr demo_master_index"
  by code_simp

lemma demo_buildIndexes:
  "buildIndexes demo_env =
     (\<lparr>written = [(''dist/sunshine.json'', demo_project_index),
                   (''dist/index.json'', demo_master_index)],
       console_errors = []\<rparr>, Inr ())"
  by code_simp

section \<open>The claims of the specification\<close>

subsection \<open>C1: app categories and the category list of a project index\<close>

text \<open>
  Claim C1 says that in every project index every app's namespaced category is the id of
  an entry of the index's category list, also when the app's original category has no
  definition in the project's category file. It fails there: with a category file that
  defines only \<^verbatim>\<open>client\<close>, the app \<^verbatim>\<open>zeta\<close> of category \<^verbatim>\<open>tools\<close> is emitted with the
  category \<^verbatim>\<open>sunshine:tools\<close>, and the list holds \<^verbatim>\<open>sunshine:client\<close> alone.
\<close>

theorem undefined_category_counterexample:
  "\<exists>idx. snd (buildProjectIndex client_only_env ''sunshine'' open_config demo_apps)
           = Inr (Some idx) \<and>
         map (\<lambda>a. js_field a ''category'') (idx_apps idx)
           = [JStr ''sunshine:client'', JStr ''sunshine:client'', JStr ''sunshine:tools''] \<and>
         map (\<lambda>c. js_field c ''id'') (idx_categories idx) = [JStr ''sunshine:client''] \<and>
         \<not> categories_closed idx"
proof -
  have "case snd (buildProjectIndex client_only_env ''sunshine'' open_config demo_apps) of
          Inr (Some idx) \<Rightarrow>
            map (\<lambda>a. js_field a ''category'') (idx_apps idx)
              = [JStr ''sunshine:client'', JStr ''sunshine:client'', JStr ''sunshine:tools''] \<and>
            map (\<lambda>c. js_field c ''id'') (idx_categories idx) = [JStr ''sunshine:client''] \<and>
            \<not> categories_closed idx
        | _ \<Rightarrow> False"
    by code_simp
  then show ?thesis
    by (simp split: sum.splits option.splits)
qed

text \<open>
  Claim C1, amended: every app \<open>b\<close> of a project index is the namespaced copy of an app
  \<open>a\<close> that passed the filters, and if the original category of \<open>a\<close> is the \<^verbatim>\<open>id\<close> of a
  definition in the project's category file, then the category of \<open>b\<close> is the id of an
  entry of the index's category list. Every app that passed the filters is emitted,
  whether its category is defined or not.
\<close>

theorem defined_category_is_listed:
  assumes "snd (buildProjectIndex e projectId cfg allApps) = Inr (Some idx)"
    and "read_json e (categories_path projectId) = Some data"
    and "category_list data = Inr cats"
    and "b \<in> set (idx_apps idx)"
  shows "(\<exists>a \<in> set (filter_apps cfg allApps).
           namespace_app projectId a = Inr b \<and>
           (list_ex (\<lambda>cat. js_get cat ''id'' = Inr (js_field a ''category'')) cats \<longrightarrow>
              list_ex (\<lambda>c. js_field c ''id'' = js_field b ''category'') (idx_categories idx))) \<and>
         (\<forall>a \<in> set (filter_apps cfg allApps).
            \<exists>b' \<in> set (idx_apps idx). namespace_app projectId a = Inr b')"
proof -
  from buildProjectIndex_Some [OF assms(1)] obtain data' counts cats' namespacedApps where
    "read_json e (categories_path projectId) = Some data'"
    and "count_apps (filter_apps cfg allApps) = Inr counts"
    and "category_list data' = Inr cats'"
    and mr': "map_result (namespace_category projectId counts) cats' = Inr (idx_categories idx)"
    and na: "map_result (namespace_app projectId) (filter_apps cfg allApps) = Inr namespacedApps"
    and srt: "toSorted (compare_apps e) namespacedApps = Inr (idx_apps idx)"
    and "idx_project idx = Some (project_header cfg)"
    by (elim exE conjE) (rule that)
  with assms(2,3) have mr:
    "map_result (namespace_category projectId counts) cats = Inr (idx_categories idx)"
    by simp
  from srt have same: "set (idx_apps idx) = set namespacedApps"
    by (rule toSorted_set)
  with assms(4) have "b \<in> set namespacedApps"
    by simp
  from map_result_source [OF na this] obtain a where
    a: "a \<in> set (filter_apps cfg allApps)" "namespace_app projectId a = Inr b"
    by auto
  from namespace_app_category [OF a(2)] obtain k where
    k: "js_to_string (js_field a ''category'') = Inr k"
    and bk: "js_field b ''category'' = JStr (namespaced projectId k)"
    by auto
  have "list_ex (\<lambda>c. js_field c ''id'' = js_field b ''category'') (idx_categories idx)"
    if "list_ex (\<lambda>cat. js_get cat ''id'' = Inr (js_field a ''category'')) cats"
  proof -
    from that obtain cat where cat: "cat \<in> set cats" "js_get cat ''id'' = Inr (js_field a ''category'')"
      by (auto simp: list_ex_iff)
    from map_result_covers [OF mr cat(1)] obtain c where c: "c \<in> set (idx_categories idx)"
      "namespace_category projectId counts cat = Inr c"
      by auto
    from namespace_category_id [OF c(2)] obtain k' where
      "js_get cat ''id'' = Inr (js_field c ''originalId'')"
      and "js_to_string (js_field c ''originalId'') = Inr k'"
      and "js_field c ''id'' = JStr (namespaced projectId k')"
      by auto
    with cat(2) k bk have "js_field c ''id'' = js_field b ''category''"
      by simp
    with c(1) show ?thesis
      by (auto simp: list_ex_iff)
  qed
  with a(2) have *: "namespace_app projectId a = Inr b \<and>
           (list_ex (\<lambda>cat. js_get cat ''id'' = Inr (js_field a ''category'')) cats \<longrightarrow>
              list_ex (\<lambda>c. js_field c ''id'' = js_field b ''category'') (idx_categories idx))"
    by simp
  have first: "\<exists>a \<in> set (filter_apps cfg allApps).
           namespace_app projectId a = Inr b \<and>
           (list_ex (\<lambda>cat. js_get cat ''id'' = Inr (js_field a ''category'')) cats \<longrightarrow>
              list_ex (\<lambda>c. js_field c ''id'' = js_field b ''category'') (idx_categories idx))"
  proof (rule bexI)
    show "namespace_app projectId a = Inr b \<and>
           (list_ex (\<lambda>cat. js_get cat ''id'' = Inr (js_field a ''category'')) cats \<longrightarrow>
              list_ex (\<lambda>c. js_field c ''id'' = js_field b ''category'') (idx_categories idx))"
      by (rule *)
    show "a \<in> set (filter_apps cfg allApps)"
      by (rule a(1))
  qed
  have second: "\<forall>a \<in> set (filter_apps cfg allApps).
            \<exists>b' \<in> set (idx_apps idx). namespace_app projectId a = Inr b'"
    unfolding same using map_result_covers [OF na] by simp
  from first second show ?thesis
    by (rule conjI)
qed

text \<open>
  In the example run the app \<^verbatim>\<open>qt\<close> has the category \<^verbatim>\<open>client\<close>, which the category file
  defines, and its namespaced category is in the list of the index.
\<close>

theorem defined_category_witness:
  "snd (buildProjectIndex demo_env ''sunshine'' sunshine_config demo_apps)
     = Inr (Some demo_project_index) \<and>
   read_json demo_env (categories_path ''sunshine'') = Some sunshine_categories \<and>
   category_list sunshine_categories = Inr [client_category, tools_category] \<and>
   filter_apps sunshine_config demo_apps = [qt_entry, spread alpha_app] \<and>
   namespace_app ''sunshine'' qt_entry = Inr qt_namespaced \<and>
   qt_namespaced \<in> set (idx_apps demo_project_index) \<and>
   list_ex (\<lambda>cat. js_get cat ''id'' = Inr (js_field qt_entry ''category''))
     [client_category, tools_category] \<and>
   list_ex (\<lambda>c. js_field c ''id'' = js_field qt_namespaced ''category'')
     (idx_categories demo_project_index) \<and>
   (\<exists>b' \<in> set (idx_apps demo_project_index).
      namespace_app ''sunshine'' (spread alpha_app) = Inr b')"
proof -
  have h1: "snd (buildProjectIndex demo_env ''sunshine'' sunshine_config demo_apps)
     = Inr (Some demo_project_index)"
    by (simp add: demo_buildProjectIndex)
  have h2: "read_json demo_env (categories_path ''sunshine'') = Some sunshine_categories"
    by code_simp
  have h3: "category_list sunshine_categories = Inr [client_category, tools_category]"
    by code_simp
  have h4: "qt_namespaced \<in> set (idx_apps demo_project_index)"
    by (simp add: demo_project_index_def)
  have h5: "list_ex (\<lambda>cat. js_get cat ''id'' = Inr (js_field qt_entry ''category''))
     [client_category, tools_category]"
    by code_simp
  have h6: "filter_apps sunshine_config demo_apps = [qt_entry, spread alpha_app]"
    by code_simp
  have h7: "namespace_app ''sunshine'' qt_entry = Inr qt_namespaced"
    by code_simp
  have h8: "namespace_app ''sunshine'' (spread alpha_app) \<noteq> Inr qt_namespaced"
    by code_simp
  from defined_category_is_listed [OF h1 h2 h3 h4] h5 h8
  have "list_ex (\<lambda>c. js_field c ''id'' = js_field qt_namespaced ''category'')
          (idx_categories demo_project_index) \<and>
        (\<exists>b' \<in> set (idx_apps demo_project_index).
           namespace_app ''sunshine'' (spread alpha_app) = Inr b')"
    unfolding h6 by auto
  with h1 h2 h3 h4 h5 h6 h7 show ?thesis by simp
qed

subsection \<open>C2: links to other hosts are never queried\<close>

text \<open>
  Claim C2: when the link cannot be converted to a string, or does not parse, or the host
  name that \<^verbatim>\<open>new URL\<close> parses out of it is not exactly \<^verbatim>\<open>github.com\<close>,
  \<open>fetchGitHubMetadata\<close> returns \<^verbatim>\<open>null\<close>; and for a record with that link the loader
  pushes no entry when building the log message throws (the \<^verbatim>\<open>id\<close> of the record has
  no text), and otherwise pushes the spread of the record: no \<^verbatim>\<open>github\<close> field is added.
\<close>

theorem untrusted_host_no_metadata:
  assumes "\<forall>s. js_to_string repoUrl = Inr s \<longrightarrow>
             map_option hostname (parse_url e s) \<noteq> Some ''github.com''"
  shows "snd (fetchGitHubMetadata e repoUrl) = None \<and>
         (read_json e file = Some app \<and> links_github app = Inr repoUrl \<longrightarrow>
            snd (load_app e file) =
              (case announce app repoUrl of
                 Inl err \<Rightarrow> None
               | Inr message \<Rightarrow> Some (spread app)))"
proof -
  have meta: "snd (fetchGitHubMetadata e repoUrl) = None"
    using assms by (auto simp: fetchGitHubMetadata_def split: option.splits sum.splits)
  then have "snd (enrich e repoUrl) = None"
    by (simp add: enrich_def)
  then show ?thesis
    using meta by (simp add: load_app_def index_entry_def split: sum.splits)
qed

text \<open>
  The link \<^verbatim>\<open>https://evil.com/github.com/foo/bar\<close> has the host \<^verbatim>\<open>evil.com\<close>: no
  metadata, and the entry is the record as it was read. A record with that link whose
  \<^verbatim>\<open>id\<close> is an object with a \<^verbatim>\<open>toString\<close> field is logged and skipped.
\<close>

theorem untrusted_host_witness:
  "js_to_string (JStr evil_url) = Inr evil_url \<and>
   map_option hostname (parse_url evil_env evil_url) = Some ''evil.com'' \<and>
   snd (fetchGitHubMetadata evil_env (JStr evil_url)) = None \<and>
   read_json evil_env ''apps/evil.json'' = Some evil_app \<and>
   links_github evil_app = Inr (JStr evil_url) \<and>
   snd (load_app evil_env ''apps/evil.json'') = Some (spread evil_app) \<and>
   map_of (spread evil_app) ''github'' = None \<and>
   read_json odd_id_env ''apps/odd.json'' = Some odd_id_app \<and>
   links_github odd_id_app = Inr (JStr evil_url) \<and>
   announce odd_id_app (JStr evil_url) = Inl TypeError \<and>
   snd (load_app odd_id_env ''apps/odd.json'') = None"
proof -
  have h0: "js_to_string (JStr evil_url) = Inr evil_url"
    by simp
  have h1: "map_option hostname (parse_url evil_env evil_url) = Some ''evil.com''"
    by code_simp
  have h1': "map_option hostname (parse_url odd_id_env evil_url) = Some ''evil.com''"
    by code_simp
  have h2: "read_json evil_env ''apps/evil.json'' = Some evil_app"
    by code_simp
  have h3: "links_github evil_app = Inr (JStr evil_url)"
    by code_simp
  have h4: "map_of (spread evil_app) ''github'' = None"
    by code_simp
  have h5: "\<exists>message. announce evil_app (JStr evil_url) = Inr message"
  proof -
    have "case announce evil_app (JStr evil_url) of Inr message \<Rightarrow> True | Inl err \<Rightarrow> False"
      by code_simp
    then show ?thesis by (simp split: sum.splits)
  qed
  have o2: "read_json odd_id_env ''apps/odd.json'' = Some odd_id_app"
    by code_simp
  have o3: "links_github odd_id_app = Inr (JStr evil_url)"
    by code_simp
  have o4: "announce odd_id_app (JStr evil_url) = Inl TypeError"
    by code_simp
  have a: "\<forall>s. js_to_string (JStr evil_url) = Inr s \<longrightarrow>
      map_option hostname (parse_url evil_env s) \<noteq> Some ''github.com''"
    using h1 by auto
  have b: "\<forall>s. js_to_string (JStr evil_url) = Inr s \<longrightarrow>
      map_option hostname (parse_url odd_id_env s) \<noteq> Some ''github.com''"
    using h1' by auto
  from untrusted_host_no_metadata [OF a, of "''apps/evil.json''" evil_app] h2 h3 h5
  have c: "snd (fetchGitHubMetadata evil_env (JStr evil_url)) = None \<and>
      snd (load_app evil_env ''apps/evil.json'') = Some (spread evil_app)"
    by auto
  from untrusted_host_no_metadata [OF b, of "''apps/odd.json''" odd_id_app] o2 o3 o4
  have d: "snd (load_app odd_id_env ''apps/odd.json'') = None"
    by simp
  from h0 h1 h2 h3 h4 o2 o3 o4 c d show ?thesis by simp
qed

subsection \<open>C3: which failures end the run\<close>

text \<open>
  Claim C3 says that a failure to create the output directory or to write any artifact
  aborts the whole run with a non-zero status, and that nothing else is fatal. On a disk
  where \<^verbatim>\<open>dist/sunshine.json\<close> cannot be written, the run logs the failure of that project,
  goes on, writes the master index and completes; and when \<^verbatim>\<open>dist\<close> cannot be created, the
  run is rejected and the process still ends with status 0.
\<close>

theorem project_write_failure_counterexample:
  "\<not> write_ok unwritable_env ''dist/sunshine.json'' \<and>
   buildIndexes unwritable_env =
     (\<lparr>written = [(''dist/index.json'', demo_master_index)],
       console_errors = [Error_building ''projects/sunshine/project.json'']\<rparr>, Inr ()) \<and>
   exit_status (run_script unwritable_env) = 0 \<and>
   snd (buildIndexes no_dist_env) = Inl MkdirError \<and>
   exit_status (run_script no_dist_env) = 0"
  by code_simp

text \<open>
  Claim C3, amended: if the output directory cannot be created, the run is rejected before
  anything is read or written; if the master index cannot be written, the run is rejected
  and only project index files have been written; a project index file that cannot be
  written is not written, the failure stays inside that project's iteration, and whether
  the run is rejected or completes does not depend on the success of the project index
  writes; and the failed write of an index that was built is logged, as the last message
  of that project's iteration.
\<close>

theorem fatal_failures:
  "(\<not> dist_exists e \<and> \<not> mkdir_ok e \<longrightarrow>
      buildIndexes e = (\<lparr>written = [], console_errors = []\<rparr>, Inl MkdirError)) \<and>
   ((dist_exists e \<or> mkdir_ok e) \<and> \<not> write_ok e master_path \<longrightarrow>
      (\<exists>err. snd (buildIndexes e) = Inl err) \<and>
      written (fst (buildIndexes e)) = snd (build_projects e (snd (loadAllApps e)) (glob_projects e))) \<and>
   (\<not> write_ok e (output_path (basename (dirname projectFile))) \<longrightarrow>
      snd (build_project e allApps projectFile) = None) \<and>
   (w master_path = write_ok e master_path \<longrightarrow>
      snd (buildIndexes (e\<lparr>write_ok := w\<rparr>)) = snd (buildIndexes e)) \<and>
   (read_project e projectFile = Some cfg \<and> js_to_string (cfg_name cfg) = Inr label \<and>
    snd (buildProjectIndex e (basename (dirname projectFile)) cfg allApps) = Inr (Some idx) \<and>
    \<not> write_ok e (output_path (basename (dirname projectFile))) \<longrightarrow>
      fst (build_project e allApps projectFile) =
        fst (buildProjectIndex e (basename (dirname projectFile)) cfg allApps)
          @ [Error_building projectFile])"
proof (intro conjI impI)
  assume "\<not> dist_exists e \<and> \<not> mkdir_ok e"
  then show "buildIndexes e = (\<lparr>written = [], console_errors = []\<rparr>, Inl MkdirError)"
    by (simp add: buildIndexes_def)
next
  assume a: "(dist_exists e \<or> mkdir_ok e) \<and> \<not> write_ok e master_path"
  then show "\<exists>err. snd (buildIndexes e) = Inl err"
    by (cases "build_master e (snd (loadAllApps e))") (auto simp: buildIndexes_def Let_def)
  from a show "written (fst (buildIndexes e))
      = snd (build_projects e (snd (loadAllApps e)) (glob_projects e))"
    by (cases "build_master e (snd (loadAllApps e))") (auto simp: buildIndexes_def Let_def)
next
  assume "\<not> write_ok e (output_path (basename (dirname projectFile)))"
  then show "snd (build_project e allApps projectFile) = None"
    by (rule build_project_unwritable)
next
  assume "w master_path = write_ok e master_path"
  then show "snd (buildIndexes (e\<lparr>write_ok := w\<rparr>)) = snd (buildIndexes e)"
    by (cases "build_master e (snd (loadAllApps e))") (auto simp: buildIndexes_def Let_def)
next
  assume "read_project e projectFile = Some cfg \<and> js_to_string (cfg_name cfg) = Inr label \<and>
    snd (buildProjectIndex e (basename (dirname projectFile)) cfg allApps) = Inr (Some idx) \<and>
    \<not> write_ok e (output_path (basename (dirname projectFile)))"
  then show "fst (build_project e allApps projectFile) =
      fst (buildProjectIndex e (basename (dirname projectFile)) cfg allApps)
        @ [Error_building projectFile]"
    by (simp add: build_project_unwritable_logged)
qed

text \<open>
  The three failures on the example repository: no directory, no master index, no project
  index. The last run ends as the run without failures does, and logs the failed build.
\<close>

theorem fatal_failures_witness:
  "buildIndexes no_dist_env = (\<lparr>written = [], console_errors = []\<rparr>, Inl MkdirError) \<and>
   (\<exists>err. snd (buildIndexes master_unwritable_env) = Inl err) \<and>
   written (fst (buildIndexes master_unwritable_env))
     = [(''dist/sunshine.json'', demo_project_index)] \<and>
   snd (build_project unwritable_env demo_apps ''projects/sunshine/project.json'') = None \<and>
   snd (buildIndexes unwritable_env) = snd (buildIndexes demo_env) \<and>
   snd (buildIndexes demo_env) = Inr () \<and>
   fst (build_project unwritable_env demo_apps ''projects/sunshine/project.json'')
     = [Error_building ''projects/sunshine/project.json'']"
proof -
  have h1: "\<not> dist_exists no_dist_env \<and> \<not> mkdir_ok no_dist_env"
    by code_simp
  have h2: "(dist_exists master_unwritable_env \<or> mkdir_ok master_unwritable_env) \<and>
      \<not> write_ok master_unwritable_env master_path"
    by code_simp
  have h3: "\<not> write_ok unwritable_env
      (output_path (basename (dirname ''projects/sunshine/project.json'')))"
    by code_simp
  have h4: "write_ok unwritable_env master_path = write_ok demo_env master_path"
    by code_simp
  have h5: "read_project unwritable_env ''projects/sunshine/project.json'' = Some sunshine_config"
    by code_simp
  have h6: "js_to_string (cfg_name sunshine_config) = Inr ''Sunshine''"
    by code_simp
  have h7: "buildProjectIndex unwritable_env
        (basename (dirname ''projects/sunshine/project.json'')) sunshine_config demo_apps
      = ([], Inr (Some demo_project_index))"
    by code_simp
  have e2: "snd (build_projects master_unwritable_env (snd (loadAllApps master_unwritable_env))
               (glob_projects master_unwritable_env))
      = [(''dist/sunshine.json'', demo_project_index)]"
    by code_simp
  have e4: "demo_env\<lparr>write_ok := write_ok unwritable_env\<rparr> = unwritable_env"
    by (simp add: unwritable_env_def)
  from fatal_failures [where e = no_dist_env] h1
  have c1: "buildIndexes no_dist_env = (\<lparr>written = [], console_errors = []\<rparr>, Inl MkdirError)"
    by simp
  from fatal_failures [where e = master_unwritable_env] h2
  have c2: "(\<exists>err. snd (buildIndexes master_unwritable_env) = Inl err) \<and>
      written (fst (buildIndexes master_unwritable_env))
        = [(''dist/sunshine.json'', demo_project_index)]"
    unfolding e2 by simp
  from fatal_failures [where e = unwritable_env
      and projectFile = "''projects/sunshine/project.json''" and allApps = demo_apps
      and cfg = sunshine_config and label = "''Sunshine''" and idx = demo_project_index]
    h3 h5 h6 h7
  have c3: "snd (build_project unwritable_env demo_apps ''projects/sunshine/project.json'') = None \<and>
      fst (build_project unwritable_env demo_apps ''projects/sunshine/project.json'')
        = [Error_building ''projects/sunshine/project.json'']"
    by simp
  from fatal_failures [where e = demo_env and w = "write_ok unwritable_env"] h4
  have c4: "snd (buildIndexes unwritable_env) = snd (buildIndexes demo_env)"
    unfolding e4 by simp
  have c5: "snd (buildIndexes demo_env) = Inr ()"
    by (simp add: demo_buildIndexes)
  from c1 c2 c3 c4 c5 show ?thesis by simp
qed

subsection \<open>C4: a category file that is not JSON\<close>

text \<open>
  Claim C4 says that a file that does not parse is logged and skipped, alone, and that the
  master index is still produced when one project's category file is malformed. The loops
  over the app files and over the project files do so; the loop that collects the
  categories for the master index has no \<^verbatim>\<open>try\<close>. With the two projects \<^verbatim>\<open>sunshine\<close>
  and \<^verbatim>\<open>beta\<close>, where \<^verbatim>\<open>projects/beta/categories.json\<close> is not JSON, the build of \<^verbatim>\<open>beta\<close>
  is logged and skipped, \<^verbatim>\<open>dist/sunshine.json\<close> is written, and then the run is rejected:
  \<^verbatim>\<open>dist/index.json\<close> is never written.
\<close>

theorem malformed_categories_abort:
  "file_exists beta_env ''projects/beta/categories.json'' \<and>
   read_json beta_env ''projects/beta/categories.json'' = None \<and>
   buildIndexes beta_env =
     (\<lparr>written = [(''dist/sunshine.json'', demo_project_index)],
       console_errors = [Error_building ''projects/beta/project.json'']\<rparr>, Inl FileError)"
  by code_simp

subsection \<open>C5: the order of the apps\<close>

text \<open>
  Claim C5 says that in every output adjacent apps are ordered featured first and then by
  their lower-cased names in code unit order. The comparator orders names with
  \<^verbatim>\<open>localeCompare\<close>, the platform's collation, which is not that order: with a collation
  that puts the underscore before the digits, the apps named \<^verbatim>\<open>A1\<close> and \<^verbatim>\<open>A_\<close> come out
  as \<^verbatim>\<open>A_\<close>, \<^verbatim>\<open>A1\<close>, and \<^verbatim>\<open>a_\<close> is greater than \<^verbatim>\<open>a1\<close> in code units.
\<close>

theorem collation_order_counterexample:
  "\<exists>m. build_master collation_env underscore_apps = Inr m \<and>
       map name_of (idx_apps m) = [''A_'', ''A1''] \<and>
       map featured (idx_apps m) = [False, False] \<and>
       \<not> toLowerCase ''A_'' \<le> toLowerCase ''A1'' \<and>
       \<not> successively lowercase_le (idx_apps m)"
proof -
  have "case build_master collation_env underscore_apps of
          Inr m \<Rightarrow>
            map name_of (idx_apps m) = [''A_'', ''A1''] \<and>
            map featured (idx_apps m) = [False, False] \<and>
            \<not> toLowerCase ''A_'' \<le> toLowerCase ''A1'' \<and>
            \<not> successively lowercase_le (idx_apps m)
        | Inl err \<Rightarrow> False"
    by code_simp
  then show ?thesis
    by (simp split: sum.splits)
qed

text \<open>
  Claim C5, amended: when \<^verbatim>\<open>localeCompare\<close> is a total preorder and every app has a
  string for a name, the sort returns, and in the apps of the master index and of every
  project index, for all adjacent pairs \<open>(a, b)\<close>: if \<open>b\<close> is featured then so is \<open>a\<close>, and
  when both are featured or both are not, \<^verbatim>\<open>a.name.localeCompare(b.name) <= 0\<close>.
\<close>

theorem output_order:
  assumes "total_preorder (locale_compare e)" and "list_all has_name allApps"
  shows "(\<exists>ys. toSorted (compare_apps e) allApps = Inr ys) \<and>
         (build_master e allApps = Inr m \<longrightarrow> successively (app_le e) (idx_apps m)) \<and>
         (snd (buildProjectIndex e projectId cfg allApps) = Inr (Some idx) \<longrightarrow>
            successively (app_le e) (idx_apps idx))"
proof (intro conjI impI)
  show "\<exists>ys. toSorted (compare_apps e) allApps = Inr ys"
    using apps_sorted [OF assms] by auto
next
  assume "build_master e allApps = Inr m"
  from build_master_Inr [OF this]
  have "toSorted (compare_apps e) allApps = Inr (idx_apps m)"
    by auto
  with apps_sorted [OF assms] show "successively (app_le e) (idx_apps m)"
    by auto
next
  assume "snd (buildProjectIndex e projectId cfg allApps) = Inr (Some idx)"
  from buildProjectIndex_Some [OF this] obtain namespacedApps where
    na: "map_result (namespace_app projectId) (filter_apps cfg allApps) = Inr namespacedApps"
    and srt: "toSorted (compare_apps e) namespacedApps = Inr (idx_apps idx)"
    by auto
  have "has_name b" if "b \<in> set namespacedApps" for b
  proof -
    from map_result_source [OF na that] obtain a where
      a: "a \<in> set (filter_apps cfg allApps)" "namespace_app projectId a = Inr b"
      by auto
    from filter_apps_names [OF assms(2), of cfg] a(1) have "has_name a"
      by (simp add: list_all_iff)
    with has_name_namespace_app [OF a(2)] show ?thesis
      by simp
  qed
  then have "list_all has_name namespacedApps"
    by (simp add: list_all_iff)
  from apps_sorted [OF assms(1) this] srt show "successively (app_le e) (idx_apps idx)"
    by auto
qed

text \<open>The example run, whose collation is the code unit order.\<close>

theorem output_order_witness:
  "total_preorder (locale_compare demo_env) \<and> list_all has_name demo_apps \<and>
   build_master demo_env demo_apps = Inr demo_master_index \<and>
   successively (app_le demo_env) (idx_apps demo_master_index) \<and>
   snd (buildProjectIndex demo_env ''sunshine'' sunshine_config demo_apps)
     = Inr (Some demo_project_index) \<and>
   successively (app_le demo_env) (idx_apps demo_project_index)"
proof -
  have h1: "total_preorder (locale_compare demo_env)"
    using code_unit_compare_total by (simp add: demo_env_def)
  have h2: "list_all has_name demo_apps"
    by code_simp
  have h3: "snd (buildProjectIndex demo_env ''sunshine'' sunshine_config demo_apps)
     = Inr (Some demo_project_index)"
    by (simp add: demo_buildProjectIndex)
  from output_order [OF h1 h2, of demo_master_index "''sunshine''" sunshine_config
      demo_project_index] demo_build_master h3
  have "successively (app_le demo_env) (idx_apps demo_master_index) \<and>
        successively (app_le demo_env) (idx_apps demo_project_index)"
    by simp
  with h1 h2 h3 demo_build_master show ?thesis by simp
qed

subsection \<open>C6: the counts of the master index\<close>

text \<open>
  Claim C6 says that the count of every category of the master index is the number of apps
  of the full set whose category is the category's original id. The counts are kept in a
  plain object, and a category id that names a property of \<^verbatim>\<open>Object.prototype\<close> finds that
  property there: for the category \<^verbatim>\<open>constructor\<close> with one app, \<^verbatim>\<open>+ 1\<close> is applied to
  the function \<^verbatim>\<open>Object\<close>, and the count is a text instead of 1; with no app the count is
  that function instead of 0.
\<close>

theorem inherited_count:
  "\<exists>m m'. build_master constructor_env constructor_apps = Inr m \<and>
       map (\<lambda>c. js_field c ''originalId'') (idx_categories m) = [JStr ''constructor''] \<and>
       length (filter (\<lambda>a. js_field a ''category'' = JStr ''constructor'') constructor_apps) = 1 \<and>
       map (\<lambda>c. js_field c ''count'') (idx_categories m)
         = [JStr ''function Object() { [native code] }1''] \<and>
       build_master constructor_env [] = Inr m' \<and>
       map (\<lambda>c. js_field c ''count'') (idx_categories m') = [JNative ''Object'']"
proof -
  have "case build_master constructor_env constructor_apps of
          Inr m \<Rightarrow>
            map (\<lambda>c. js_field c ''originalId'') (idx_categories m) = [JStr ''constructor''] \<and>
            length (filter (\<lambda>a. js_field a ''category'' = JStr ''constructor'') constructor_apps)
              = 1 \<and>
            map (\<lambda>c. js_field c ''count'') (idx_categories m)
              = [JStr ''function Object() { [native code] }1'']
        | Inl err \<Rightarrow> False"
    by code_simp
  moreover have "case build_master constructor_env [] of
          Inr m' \<Rightarrow> map (\<lambda>c. js_field c ''count'') (idx_categories m') = [JNative ''Object'']
        | Inl err \<Rightarrow> False"
    by code_simp
  ultimately show ?thesis
    by (simp split: sum.splits)
qed

subsection \<open>C7: the three filters\<close>

text \<open>
  Claim C7: \<open>buildProjectIndex\<close> filters by \<^verbatim>\<open>include_only\<close>, then by \<^verbatim>\<open>exclude_apps\<close>,
  then by \<^verbatim>\<open>featured_categories\<close>, each on the result of the step before. A step whose
  list is empty or absent changes nothing. With a list that is not empty, the first step
  keeps exactly the apps whose \<^verbatim>\<open>id\<close> the list includes, the second keeps exactly the
  apps whose \<^verbatim>\<open>id\<close> the list does not include, and the third keeps exactly the apps
  whose \<^verbatim>\<open>category\<close> the list includes, all in their order. The result of every step is
  a subsequence of its input and no longer than it, so the filtered apps are a subsequence
  of all apps; and the apps of the index are the filtered apps, namespaced, in some order.
\<close>

theorem filter_pipeline:
  "filter_apps cfg allApps =
     apply_featured_categories cfg (apply_exclude_apps cfg (apply_include_only cfg allApps)) \<and>
   (include_only cfg = Some ids \<and> ids \<noteq> [] \<longrightarrow>
      apply_include_only cfg xs = filter (\<lambda>app. js_includes ids (js_field app ''id'')) xs) \<and>
   (exclude_apps cfg = Some ids \<and> ids \<noteq> [] \<longrightarrow>
      apply_exclude_apps cfg xs = filter (\<lambda>app. \<not> js_includes ids (js_field app ''id'')) xs) \<and>
   (featured_categories cfg = Some ids \<and> ids \<noteq> [] \<longrightarrow>
      apply_featured_categories cfg xs
        = filter (\<lambda>app. js_includes ids (js_field app ''category'')) xs) \<and>
   subseq (apply_include_only cfg xs) xs \<and> length (apply_include_only cfg xs) \<le> length xs \<and>
   subseq (apply_exclude_apps cfg xs) xs \<and> length (apply_exclude_apps cfg xs) \<le> length xs \<and>
   subseq (apply_featured_categories cfg xs) xs \<and>
   length (apply_featured_categories cfg xs) \<le> length xs \<and>
   (include_only cfg = None \<or> include_only cfg = Some [] \<longrightarrow> apply_include_only cfg xs = xs) \<and>
   (exclude_apps cfg = None \<or> exclude_apps cfg = Some [] \<longrightarrow> apply_exclude_apps cfg xs = xs) \<and>
   (featured_categories cfg = None \<or> featured_categories cfg = Some [] \<longrightarrow>
      apply_featured_categories cfg xs = xs) \<and>
   subseq (filter_apps cfg allApps) allApps \<and>
   set (filter_apps cfg allApps) \<subseteq> set allApps \<and>
   (snd (buildProjectIndex e projectId cfg allApps) = Inr (Some idx) \<longrightarrow>
      mset (map Inr (idx_apps idx))
        = mset (map (namespace_app projectId) (filter_apps cfg allApps)) \<and>
      length (idx_apps idx) \<le> length allApps)"
proof -
  have order: "filter_apps cfg allApps =
     apply_featured_categories cfg (apply_exclude_apps cfg (apply_include_only cfg allApps))"
    by (simp add: filter_apps_def)
  have f1: "include_only cfg = Some ids \<and> ids \<noteq> [] \<longrightarrow>
      apply_include_only cfg xs = filter (\<lambda>app. js_includes ids (js_field app ''id'')) xs"
    by (simp add: apply_include_only_def)
  have f2: "exclude_apps cfg = Some ids \<and> ids \<noteq> [] \<longrightarrow>
      apply_exclude_apps cfg xs = filter (\<lambda>app. \<not> js_includes ids (js_field app ''id'')) xs"
    by (simp add: apply_exclude_apps_def)
  have f3: "featured_categories cfg = Some ids \<and> ids \<noteq> [] \<longrightarrow>
      apply_featured_categories cfg xs
        = filter (\<lambda>app. js_includes ids (js_field app ''category'')) xs"
    by (simp add: apply_featured_categories_def)
  have l1: "length (apply_include_only cfg xs) \<le> length xs"
    using subseq_include by (rule list_emb_length)
  have l2: "length (apply_exclude_apps cfg xs) \<le> length xs"
    using subseq_exclude by (rule list_emb_length)
  have l3: "length (apply_featured_categories cfg xs) \<le> length xs"
    using subseq_featured by (rule list_emb_length)
  have n1: "include_only cfg = None \<or> include_only cfg = Some [] \<longrightarrow> apply_include_only cfg xs = xs"
    by (auto simp: apply_include_only_def)
  have n2: "exclude_apps cfg = None \<or> exclude_apps cfg = Some [] \<longrightarrow> apply_exclude_apps cfg xs = xs"
    by (auto simp: apply_exclude_apps_def)
  have n3: "featured_categories cfg = None \<or> featured_categories cfg = Some [] \<longrightarrow>
      apply_featured_categories cfg xs = xs"
    by (auto simp: apply_featured_categories_def)
  have sub: "set (filter_apps cfg allApps) \<subseteq> set allApps"
    using filter_apps_subseq by (rule subseq_set)
  have out: "snd (buildProjectIndex e projectId cfg allApps) = Inr (Some idx) \<longrightarrow>
      mset (map Inr (idx_apps idx))
        = mset (map (namespace_app projectId) (filter_apps cfg allApps)) \<and>
      length (idx_apps idx) \<le> length allApps"
  proof
    assume "snd (buildProjectIndex e projectId cfg allApps) = Inr (Some idx)"
    from buildProjectIndex_apps [OF this] obtain namespacedApps where
      na: "map_result (namespace_app projectId) (filter_apps cfg allApps) = Inr namespacedApps"
      and ms: "mset (idx_apps idx) = mset namespacedApps"
      by auto
    from ms have "mset (map Inr (idx_apps idx))
        = (mset (map Inr namespacedApps) :: (error + obj) multiset)"
      by simp
    with map_result_map [OF na]
    have m: "mset (map Inr (idx_apps idx))
        = mset (map (namespace_app projectId) (filter_apps cfg allApps))"
      by simp
    from ms have "size (mset (idx_apps idx)) = size (mset namespacedApps)"
      by simp
    then have "length (idx_apps idx) = length (filter_apps cfg allApps)"
      using map_result_length [OF na] by simp
    moreover have "length (filter_apps cfg allApps) \<le> length allApps"
      using filter_apps_subseq by (rule list_emb_length)
    ultimately show "mset (map Inr (idx_apps idx))
          = mset (map (namespace_app projectId) (filter_apps cfg allApps)) \<and>
        length (idx_apps idx) \<le> length allApps"
      using m by simp
  qed
  from order f1 f2 f3 subseq_include l1 subseq_exclude l2 subseq_featured l3 n1 n2 n3
    filter_apps_subseq sub out
  show ?thesis by (intro conjI)
qed

text \<open>
  The example project has no \<^verbatim>\<open>include_only\<close>, excludes \<^verbatim>\<open>zeta\<close> and has an empty
  \<^verbatim>\<open>featured_categories\<close>; the configuration without filters keeps every app. With the
  configuration whose three lists are not empty, each step drops an app:
  applied to \<^verbatim>\<open>zeta\<close>, \<^verbatim>\<open>qt\<close> and \<^verbatim>\<open>alpha\<close> the first step drops \<^verbatim>\<open>alpha\<close>,
  the second drops \<^verbatim>\<open>alpha\<close>, the third drops \<^verbatim>\<open>zeta\<close>, and the three in a row keep
  \<^verbatim>\<open>qt\<close> alone.
\<close>

theorem filter_pipeline_witness:
  "include_only sunshine_config = None \<and> apply_include_only sunshine_config demo_apps = demo_apps \<and>
   exclude_apps open_config = None \<and> apply_exclude_apps open_config demo_apps = demo_apps \<and>
   featured_categories sunshine_config = Some [] \<and>
   apply_featured_categories sunshine_config demo_apps = demo_apps \<and>
   filter_apps sunshine_config demo_apps = [qt_entry, spread alpha_app] \<and>
   subseq [qt_entry, spread alpha_app] demo_apps \<and>
   snd (buildProjectIndex demo_env ''sunshine'' sunshine_config demo_apps)
     = Inr (Some demo_project_index) \<and>
   mset (map Inr (idx_apps demo_project_index))
     = mset (map (namespace_app ''sunshine'') [qt_entry, spread alpha_app]) \<and>
   length (idx_apps demo_project_index) \<le> length demo_apps \<and>
   demo_apps = [spread zeta_app, qt_entry, spread alpha_app] \<and>
   include_only strict_config = Some [JStr ''qt'', JStr ''zeta''] \<and>
   apply_include_only strict_config demo_apps = [spread zeta_app, qt_entry] \<and>
   exclude_apps strict_config = Some [JStr ''alpha''] \<and>
   apply_exclude_apps strict_config demo_apps = [spread zeta_app, qt_entry] \<and>
   featured_categories strict_config = Some [JStr ''client''] \<and>
   apply_featured_categories strict_config demo_apps = [qt_entry, spread alpha_app] \<and>
   filter_apps strict_config demo_apps = [qt_entry]"
proof -
  have h1: "include_only sunshine_config = None"
    by code_simp
  have h2: "exclude_apps open_config = None"
    by code_simp
  have h3: "featured_categories sunshine_config = Some []"
    by code_simp
  have h4: "snd (buildProjectIndex demo_env ''sunshine'' sunshine_config demo_apps)
     = Inr (Some demo_project_index)"
    by (simp add: demo_buildProjectIndex)
  have h5: "filter_apps sunshine_config demo_apps = [qt_entry, spread alpha_app]"
    by code_simp
  have h6: "demo_apps = [spread zeta_app, qt_entry, spread alpha_app]"
    by code_simp
  have s1: "include_only strict_config = Some [JStr ''qt'', JStr ''zeta'']"
    by code_simp
  have s2: "exclude_apps strict_config = Some [JStr ''alpha'']"
    by code_simp
  have s3: "featured_categories strict_config = Some [JStr ''client'']"
    by code_simp
  have v1: "filter (\<lambda>app. js_includes [JStr ''qt'', JStr ''zeta''] (js_field app ''id'')) demo_apps
      = [spread zeta_app, qt_entry]"
    by code_simp
  have v2: "filter (\<lambda>app. \<not> js_includes [JStr ''alpha''] (js_field app ''id'')) demo_apps
      = [spread zeta_app, qt_entry]"
    by code_simp
  have v3: "filter (\<lambda>app. js_includes [JStr ''client''] (js_field app ''category'')) demo_apps
      = [qt_entry, spread alpha_app]"
    by code_simp
  have v4: "apply_featured_categories strict_config
        (apply_exclude_apps strict_config (apply_include_only strict_config demo_apps))
      = [qt_entry]"
    by code_simp
  from filter_pipeline [where cfg = sunshine_config and allApps = demo_apps and xs = demo_apps
      and e = demo_env and projectId = "''sunshine''" and idx = demo_project_index] h1 h3 h4
  have a: "apply_include_only sunshine_config demo_apps = demo_apps \<and>
      apply_featured_categories sunshine_config demo_apps = demo_apps \<and>
      subseq (filter_apps sunshine_config demo_apps) demo_apps \<and>
      mset (map Inr (idx_apps demo_project_index))
        = mset (map (namespace_app ''sunshine'') (filter_apps sunshine_config demo_apps)) \<and>
      length (idx_apps demo_project_index) \<le> length demo_apps"
    by blast
  from filter_pipeline [where cfg = open_config and allApps = demo_apps and xs = demo_apps
      and e = demo_env and projectId = "''sunshine''" and idx = demo_project_index] h2
  have b: "apply_exclude_apps open_config demo_apps = demo_apps"
    by blast
  have s: "subseq [qt_entry, spread alpha_app] demo_apps"
    using a unfolding h5 by blast
  have m: "mset (map Inr (idx_apps demo_project_index))
     = mset (map (namespace_app ''sunshine'') [qt_entry, spread alpha_app])"
    using a unfolding h5 by blast
  have c1: "apply_include_only strict_config demo_apps
      = filter (\<lambda>app. js_includes [JStr ''qt'', JStr ''zeta''] (js_field app ''id'')) demo_apps"
    using filter_pipeline [where cfg = strict_config and xs = demo_apps
        and ids = "[JStr ''qt'', JStr ''zeta'']"] s1
    by blast
  have c2: "apply_exclude_apps strict_config demo_apps
      = filter (\<lambda>app. \<not> js_includes [JStr ''alpha''] (js_field app ''id'')) demo_apps"
    using filter_pipeline [where cfg = strict_config and xs = demo_apps
        and ids = "[JStr ''alpha'']"] s2
    by blast
  have c3: "apply_featured_categories strict_config demo_apps
      = filter (\<lambda>app. js_includes [JStr ''client''] (js_field app ''category'')) demo_apps"
    using filter_pipeline [where cfg = strict_config and xs = demo_apps
        and ids = "[JStr ''client'']"] s3
    by blast
  have c4: "filter_apps strict_config demo_apps = [qt_entry]"
    using filter_pipeline [where cfg = strict_config and allApps = demo_apps] v4
    by simp
  from a b h1 h2 h3 h4 h5 h6 s m s1 s2 s3 c1 [unfolded v1] c2 [unfolded v2] c3 [unfolded v3] c4
  show ?thesis by blast
qed

subsection \<open>C8: namespaced category ids\<close>

text \<open>
  Claim C8 says that stripping the project id and the colon from the \<^verbatim>\<open>id\<close> of a category
  always gives exactly its \<^verbatim>\<open>originalId\<close> field. The \<^verbatim>\<open>id\<close> is a template literal, which
  holds the text of the original id, while \<^verbatim>\<open>originalId\<close> is the original id itself: with
  a category file whose two definitions have the ids \<^verbatim>\<open>null\<close> and \<^verbatim>\<open>"null"\<close>, both
  categories of the project index have the id \<^verbatim>\<open>sunshine:null\<close>, and for the first one
  stripping the prefix gives the string \<^verbatim>\<open>"null"\<close>, not its \<^verbatim>\<open>originalId\<close>, which is
  \<^verbatim>\<open>null\<close>.
\<close>

theorem null_id_counterexample:
  "\<exists>idx. snd (buildProjectIndex null_id_env ''sunshine'' open_config demo_apps)
           = Inr (Some idx) \<and>
         map (\<lambda>c. js_field c ''id'') (idx_categories idx)
           = [JStr ''sunshine:null'', JStr ''sunshine:null''] \<and>
         map (\<lambda>c. js_field c ''originalId'') (idx_categories idx) = [JNull, JStr ''null''] \<and>
         map_option JStr (strip_prefix ''sunshine:'' ''sunshine:null'') \<noteq> Some JNull \<and>
         map (exactly_recoverable ''sunshine'') (idx_categories idx) = [False, True]"
proof -
  have "case snd (buildProjectIndex null_id_env ''sunshine'' open_config demo_apps) of
          Inr (Some idx) \<Rightarrow>
            map (\<lambda>c. js_field c ''id'') (idx_categories idx)
              = [JStr ''sunshine:null'', JStr ''sunshine:null''] \<and>
            map (\<lambda>c. js_field c ''originalId'') (idx_categories idx) = [JNull, JStr ''null''] \<and>
            map_option JStr (strip_prefix ''sunshine:'' ''sunshine:null'') \<noteq> Some JNull \<and>
            map (exactly_recoverable ''sunshine'') (idx_categories idx) = [False, True]
        | _ \<Rightarrow> False"
    by code_simp
  then show ?thesis
    by (simp split: sum.splits option.splits)
qed

text \<open>
  Claim C8, amended: the \<^verbatim>\<open>id\<close> of every category of a project index is the project id, a
  colon and the text of the category's \<^verbatim>\<open>originalId\<close> (as a template literal prints it),
  and for every category whose \<^verbatim>\<open>originalId\<close> is a string, stripping the project id and
  the colon from the \<^verbatim>\<open>id\<close> gives exactly the \<^verbatim>\<open>originalId\<close> field. The same holds for
  every category of the master index, with the directory name of one of the category
  files, which is also its \<^verbatim>\<open>project\<close> field.
\<close>

theorem namespacing_roundtrip:
  "(snd (buildProjectIndex e projectId cfg allApps) = Inr (Some idx) \<longrightarrow>
      list_all (\<lambda>c. namespaced_by projectId c \<and>
                    (string_id c \<longrightarrow> exactly_recoverable projectId c))
        (idx_categories idx)) \<and>
   (build_master e allApps = Inr m \<longrightarrow>
      list_all (\<lambda>c. list_ex (\<lambda>p. from_project p c \<and>
                                  (string_id c \<longrightarrow> exactly_recoverable p c))
                      (map (\<lambda>f. basename (dirname f)) (glob_categories e)))
        (idx_categories m))"
proof (intro conjI impI)
  assume "snd (buildProjectIndex e projectId cfg allApps) = Inr (Some idx)"
  from buildProjectIndex_Some [OF this] obtain counts cats where
    "map_result (namespace_category projectId counts) cats = Inr (idx_categories idx)"
    by auto
  then show "list_all (\<lambda>c. namespaced_by projectId c \<and>
                    (string_id c \<longrightarrow> exactly_recoverable projectId c))
        (idx_categories idx)"
    by (rule map_result_all)
      (simp add: namespace_category_namespaced_by namespaced_by_exact)
next
  let ?ps = "map (\<lambda>f. basename (dirname f)) (glob_categories e)"
  assume "build_master e allApps = Inr m"
  from build_master_Inr [OF this] obtain categoryData counts where
    cd: "collect_categories e (glob_categories e) [] = Inr categoryData"
    and cats: "map_result (master_count counts) (map snd categoryData) = Inr (idx_categories m)"
    by auto
  from cd have "list_all (\<lambda>c. list_ex (\<lambda>p. from_project p c) ?ps) (map snd categoryData)"
    by (rule collect_categories_inv) simp_all
  with cats have "list_all (\<lambda>c. list_ex (\<lambda>p. from_project p c) ?ps) (idx_categories m)"
    by (rule from_project_counts)
  then show "list_all (\<lambda>c. list_ex (\<lambda>p. from_project p c \<and>
                                  (string_id c \<longrightarrow> exactly_recoverable p c)) ?ps)
        (idx_categories m)"
    by (rule from_project_exact)
qed

text \<open>
  Both indexes of the example run: every original id is a string, and is what stripping
  the prefix gives.
\<close>

theorem namespacing_roundtrip_witness:
  "snd (buildProjectIndex demo_env ''sunshine'' sunshine_config demo_apps)
     = Inr (Some demo_project_index) \<and>
   list_all string_id (idx_categories demo_project_index) \<and>
   list_all (namespaced_by ''sunshine'') (idx_categories demo_project_index) \<and>
   list_all (exactly_recoverable ''sunshine'') (idx_categories demo_project_index) \<and>
   strip_prefix ''sunshine:'' ''sunshine:client'' = Some ''client'' \<and>
   build_master demo_env demo_apps = Inr demo_master_index \<and>
   list_all string_id (idx_categories demo_master_index) \<and>
   list_all (\<lambda>c. list_ex (\<lambda>p. from_project p c \<and> exactly_recoverable p c) [''sunshine''])
     (idx_categories demo_master_index)"
proof -
  have h1: "snd (buildProjectIndex demo_env ''sunshine'' sunshine_config demo_apps)
     = Inr (Some demo_project_index)"
    by (simp add: demo_buildProjectIndex)
  have h2: "map (\<lambda>f. basename (dirname f)) (glob_categories demo_env) = [''sunshine'']"
    by code_simp
  have h3: "strip_prefix ''sunshine:'' ''sunshine:client'' = Some ''client''"
    by code_simp
  have h4: "list_all string_id (idx_categories demo_project_index)"
    by code_simp
  have h5: "list_all string_id (idx_categories demo_master_index)"
    by code_simp
  from namespacing_roundtrip [of demo_env "''sunshine''" sunshine_config demo_apps
      demo_project_index demo_master_index] h1 demo_build_master
  have "list_all (\<lambda>c. namespaced_by ''sunshine'' c \<and>
                    (string_id c \<longrightarrow> exactly_recoverable ''sunshine'' c))
          (idx_categories demo_project_index) \<and>
      list_all (\<lambda>c. list_ex (\<lambda>p. from_project p c \<and>
                                  (string_id c \<longrightarrow> exactly_recoverable p c)) [''sunshine''])
        (idx_categories demo_master_index)"
    unfolding h2 by simp
  with h4 h5 have "list_all (namespaced_by ''sunshine'') (idx_categories demo_project_index) \<and>
      list_all (exactly_recoverable ''sunshine'') (idx_categories demo_project_index) \<and>
      list_all (\<lambda>c. list_ex (\<lambda>p. from_project p c \<and> exactly_recoverable p c) [''sunshine''])
        (idx_categories demo_master_index)"
    by (auto simp: list_all_iff)
  with h1 h3 h4 h5 demo_build_master show ?thesis by simp
qed

subsection \<open>C9: what the loader keeps and adds\<close>




subsection \<open>C10: the namespace is the directory name\<close>

text \<open>
  Claim C10: in the project index that \<open>buildIndexes\<close> writes for a project file, the
  prefix of every category id and of every app category is the name of the directory of
  the project file, while \<^verbatim>\<open>project.id\<close> is the \<^verbatim>\<open>id\<close> field of the configuration; so when
  that field is not the directory name, \<^verbatim>\<open>project.id\<close> is not the prefix that was applied.
\<close>

theorem prefix_is_directory_name:
  assumes "read_project e projectFile = Some cfg"
    and "snd (build_project e allApps projectFile) = Some (path, idx)"
  shows "list_all (namespaced_by (basename (dirname projectFile))) (idx_categories idx) \<and>
         list_all (\<lambda>b. list_ex (\<lambda>a. case js_to_string (js_field a ''category'') of
                                      Inr k \<Rightarrow>
                                        js_field b ''category'' =
                                          JStr (basename (dirname projectFile) @ '':'' @ k)
                                    | Inl err \<Rightarrow> False)
                    allApps) (idx_apps idx) \<and>
         map_option (\<lambda>p. js_field p ''id'') (idx_project idx) = Some (cfg_id cfg) \<and>
         (cfg_id cfg \<noteq> JStr (basename (dirname projectFile)) \<longrightarrow>
            map_option (\<lambda>p. js_field p ''id'') (idx_project idx)
              \<noteq> Some (JStr (basename (dirname projectFile))))"
proof -
  let ?pid = "basename (dirname projectFile)"
  from build_project_Some [OF assms(2,1)]
  have built: "snd (buildProjectIndex e ?pid cfg allApps) = Inr (Some idx)"
    by simp
  from buildProjectIndex_Some [OF built] obtain data counts cats namespacedApps where
    "read_json e (categories_path ?pid) = Some data"
    and "count_apps (filter_apps cfg allApps) = Inr counts"
    and "category_list data = Inr cats"
    and mr: "map_result (namespace_category ?pid counts) cats = Inr (idx_categories idx)"
    and na: "map_result (namespace_app ?pid) (filter_apps cfg allApps) = Inr namespacedApps"
    and srt: "toSorted (compare_apps e) namespacedApps = Inr (idx_apps idx)"
    and hdr: "idx_project idx = Some (project_header cfg)"
    by (elim exE conjE) (rule that)
  from mr have c: "list_all (namespaced_by ?pid) (idx_categories idx)"
    by (rule map_result_all) (rule namespace_category_namespaced_by)
  from srt have same: "set (idx_apps idx) = set namespacedApps"
    by (rule toSorted_set)
  have sub: "set (filter_apps cfg allApps) \<subseteq> set allApps"
    using filter_apps_subseq by (rule subseq_set)
  have "list_ex (\<lambda>a. case js_to_string (js_field a ''category'') of
                       Inr k \<Rightarrow> js_field b ''category'' = JStr (?pid @ '':'' @ k)
                     | Inl err \<Rightarrow> False) allApps"
    if "b \<in> set (idx_apps idx)" for b
  proof -
    from that same have "b \<in> set namespacedApps"
      by simp
    from map_result_source [OF na this] obtain a where
      a: "a \<in> set (filter_apps cfg allApps)" "namespace_app ?pid a = Inr b"
      by auto
    from namespace_app_category [OF a(2)] obtain k where
      "js_to_string (js_field a ''category'') = Inr k"
      and "js_field b ''category'' = JStr (namespaced ?pid k)"
      by auto
    then have *: "case js_to_string (js_field a ''category'') of
                 Inr k \<Rightarrow> js_field b ''category'' = JStr (?pid @ '':'' @ k)
               | Inl err \<Rightarrow> False"
      by (simp add: namespaced_def)
    from a(1) sub have mem: "a \<in> set allApps"
      by auto
    show ?thesis
      unfolding list_ex_iff
    proof (rule bexI)
      show "case js_to_string (js_field a ''category'') of
              Inr k \<Rightarrow> js_field b ''category'' = JStr (?pid @ '':'' @ k)
            | Inl err \<Rightarrow> False"
        by (rule *)
      show "a \<in> set allApps"
        by (rule mem)
    qed
  qed
  then have a: "list_all (\<lambda>b. list_ex (\<lambda>a. case js_to_string (js_field a ''category'') of
                                      Inr k \<Rightarrow> js_field b ''category'' = JStr (?pid @ '':'' @ k)
                                    | Inl err \<Rightarrow> False)
                    allApps) (idx_apps idx)"
    by (simp add: list_all_iff)
  from hdr have p: "map_option (\<lambda>p. js_field p ''id'') (idx_project idx) = Some (cfg_id cfg)"
    by (simp add: project_header_def js_field_def)
  have q: "cfg_id cfg \<noteq> JStr ?pid \<longrightarrow>
      map_option (\<lambda>p. js_field p ''id'') (idx_project idx) \<noteq> Some (JStr ?pid)"
    unfolding p by simp
  from c a p q show ?thesis by (intro conjI)
qed

text \<open>
  The project in the directory \<^verbatim>\<open>sunshine\<close> whose configuration has the id
  \<^verbatim>\<open>sunshine-host\<close>: the categories are prefixed with \<^verbatim>\<open>sunshine:\<close>.
\<close>

theorem prefix_is_directory_name_witness:
  "read_project renamed_env ''projects/sunshine/project.json''
     = Some (sunshine_config\<lparr>cfg_id := JStr ''sunshine-host''\<rparr>) \<and>
   snd (build_project renamed_env demo_apps ''projects/sunshine/project.json'')
     = Some (''dist/sunshine.json'', renamed_index) \<and>
   basename (dirname ''projects/sunshine/project.json'') = ''sunshine'' \<and>
   list_all (namespaced_by ''sunshine'') (idx_categories renamed_index) \<and>
   list_all (\<lambda>b. list_ex (\<lambda>a. case js_to_string (js_field a ''category'') of
                                Inr k \<Rightarrow> js_field b ''category'' = JStr (''sunshine'' @ '':'' @ k)
                              | Inl err \<Rightarrow> False)
               demo_apps) (idx_apps renamed_index) \<and>
   map_option (\<lambda>p. js_field p ''id'') (idx_project renamed_index) = Some (JStr ''sunshine-host'') \<and>
   map_option (\<lambda>p. js_field p ''id'') (idx_project renamed_index) \<noteq> Some (JStr ''sunshine'')"
proof -
  have h1: "read_project renamed_env ''projects/sunshine/project.json''
     = Some (sunshine_config\<lparr>cfg_id := JStr ''sunshine-host''\<rparr>)"
    by code_simp
  have h2: "snd (build_project renamed_env demo_apps ''projects/sunshine/project.json'')
     = Some (''dist/sunshine.json'', renamed_index)"
    by code_simp
  have h3: "basename (dirname ''projects/sunshine/project.json'') = ''sunshine''"
    by code_simp
  have h4: "cfg_id (sunshine_config\<lparr>cfg_id := JStr ''sunshine-host''\<rparr>) = JStr ''sunshine-host''"
    by simp
  from prefix_is_directory_name [OF h1 h2]
  have "list_all (namespaced_by ''sunshine'') (idx_categories renamed_index) \<and>
      list_all (\<lambda>b. list_ex (\<lambda>a. case js_to_string (js_field a ''category'') of
                                Inr k \<Rightarrow> js_field b ''category'' = JStr (''sunshine'' @ '':'' @ k)
                              | Inl err \<Rightarrow> False)
               demo_apps) (idx_apps renamed_index) \<and>
      map_option (\<lambda>p. js_field p ''id'') (idx_project renamed_index)
        = Some (JStr ''sunshine-host'') \<and>
      map_option (\<lambda>p. js_field p ''id'') (idx_project renamed_index) \<noteq> Some (JStr ''sunshine'')"
    unfolding h3 h4 by simp
  with h1 h2 h3 show ?thesis by simp
qed

end
